theory Spec2Isabelle
  imports Complex_Main "HOL-Library.Multiset" "HOL-Library.Log_Nat"
begin

section \<open>JavaScript values\<close>

text \<open>
  A JavaScript number is a binary64 value: a finite number, one of the two infinities, or
  NaN. A finite number is modelled by the real number it denotes; the numbers a program
  can hold are the representable ones (\<open>representable\<close> below). The sign of zero is not
  modelled: no comparison of the program depends on it.
\<close>

datatype jsnum = Fin real | PosInf | NegInf | NaN

subsection \<open>Rounding to binary64\<close>

text \<open>Rounding to the nearest integer, a tie going to the even one.\<close>

definition round_half_even :: "real \<Rightarrow> int" where
  "round_half_even r =
     (let f = \<lfloor>r\<rfloor>
      in if r - of_int f < 1 / 2 then f
         else if 1 / 2 < r - of_int f then f + 1
         else if even f then f else f + 1)"

text \<open>
  The binary exponent of a real other than zero: the \<open>e\<close> with \<open>2^e \<le> |x| < 2^(e+1)\<close>,
  computed from the bit length of an integer.
\<close>

definition exponent :: "real \<Rightarrow> int" where
  "exponent x = (if 1 \<le> \<bar>x\<bar> then bitlen \<lfloor>\<bar>x\<bar>\<rfloor> - 1 else - bitlen (\<lceil>1 / \<bar>x\<bar>\<rceil> - 1))"

text \<open>
  The multiple of the unit in the last place that is nearest to \<open>x\<close>. A significand has
  53 bits, so the unit is \<open>2^(e - 52)\<close>; below the normal range the unit stays at
  \<open>2^-1074\<close> (gradual underflow).
\<close>

definition nearest64 :: "real \<Rightarrow> real" where
  "nearest64 x =
     (let q = max (exponent x - 52) (- 1074)
      in of_int (round_half_even (x / 2 powi q)) * 2 powi q)"

text \<open>
  The binary64 value of an exact result \<open>x\<close>, in the default rounding mode: the nearest
  value, and an infinity when that reaches \<open>2^1024\<close>.
\<close>

definition round64 :: "real \<Rightarrow> jsnum" where
  "round64 x =
     (if x = 0 then Fin 0
      else let y = nearest64 x
           in if 2 ^ 1024 \<le> \<bar>y\<bar> then (if 0 < x then PosInf else NegInf) else Fin y)"

text \<open>The reals that are binary64 values.\<close>

definition representable :: "real \<Rightarrow> bool" where
  "representable x = (round64 x = Fin x)"

subsection \<open>Operators\<close>

text \<open>The relational operator \<open>a >= b\<close> on numbers: false as soon as one side is NaN.\<close>

fun js_ge :: "jsnum \<Rightarrow> jsnum \<Rightarrow> bool" where
  "js_ge NaN _ = False"
| "js_ge _ NaN = False"
| "js_ge (Fin a) (Fin b) = (b \<le> a)"
| "js_ge PosInf _ = True"
| "js_ge _ NegInf = True"
| "js_ge (Fin _) PosInf = False"
| "js_ge NegInf _ = False"

text \<open>The relational operator \<open>a < b\<close> on numbers.\<close>

fun js_lt :: "jsnum \<Rightarrow> jsnum \<Rightarrow> bool" where
  "js_lt NaN _ = False"
| "js_lt _ NaN = False"
| "js_lt (Fin a) (Fin b) = (a < b)"
| "js_lt PosInf _ = False"
| "js_lt _ NegInf = False"
| "js_lt (Fin _) PosInf = True"
| "js_lt NegInf _ = True"

text \<open>The sign of a number, as a real: 0 for zero, and for NaN, which has none.\<close>

fun js_sign :: "jsnum \<Rightarrow> real" where
  "js_sign (Fin a) = sgn a"
| "js_sign PosInf = 1"
| "js_sign NegInf = - 1"
| "js_sign NaN = 0"

text \<open>
  The product \<open>a * b\<close>: NaN is absorbing; the product of two finite numbers is the exact
  product rounded to binary64; infinity times zero is NaN, and any other infinite product
  takes the sign of its factors.
\<close>

fun js_mul :: "jsnum \<Rightarrow> jsnum \<Rightarrow> jsnum" where
  "js_mul NaN _ = NaN"
| "js_mul _ NaN = NaN"
| "js_mul (Fin a) (Fin b) = round64 (a * b)"
| "js_mul a b =
     (if js_sign a * js_sign b = 0 then NaN
      else if 0 < js_sign a * js_sign b then PosInf else NegInf)"

text \<open>\<open>Number.isFinite\<close> on a number.\<close>

fun isFinite :: "jsnum \<Rightarrow> bool" where
  "isFinite (Fin _) = True"
| "isFinite _ = False"

text \<open>
  A JavaScript value. \<open>'f\<close> is the type of what a function value stands for: the rule
  objects handed to the engine carry their condition as a function value. Strings are
  sequences of code units below 256; objects are association lists from property name
  to value, the first binding of a name being the property; arrays are dense.
\<close>

datatype 'f jsval =
    JUndefined
  | JNull
  | JBool bool
  | JNum jsnum
  | JStr string
  | JFun 'f
  | JArr "'f jsval list"
  | JObj "(string \<times> 'f jsval) list"

text \<open>ToBoolean, as applied by \<open>if (...)\<close>, \<open>!\<close>, \<open>&&\<close> and \<open>||\<close>.\<close>

fun truthy :: "'f jsval \<Rightarrow> bool" where
  "truthy JUndefined = False"
| "truthy JNull = False"
| "truthy (JBool b) = b"
| "truthy (JNum n) = (n \<noteq> NaN \<and> n \<noteq> Fin 0)"
| "truthy (JStr s) = (s \<noteq> [])"
| "truthy (JFun _) = True"
| "truthy (JArr _) = True"
| "truthy (JObj _) = True"

text \<open>\<open>typeof v === "object"\<close>: true of null, of arrays and of objects.\<close>

fun typeof_object :: "'f jsval \<Rightarrow> bool" where
  "typeof_object JNull = True"
| "typeof_object (JArr _) = True"
| "typeof_object (JObj _) = True"
| "typeof_object _ = False"

text \<open>\<open>prop in v\<close> for the property names the engine asks for (none of them an array index).\<close>

fun has_property :: "string \<Rightarrow> 'f jsval \<Rightarrow> bool" where
  "has_property p (JObj fs) = (map_of fs p \<noteq> None)"
| "has_property p _ = False"

text \<open>
  \<open>v.p\<close> on a value that is not null or undefined, for a property name that no
  prototype defines: the own property, or undefined.
\<close>

fun property :: "'f jsval \<Rightarrow> string \<Rightarrow> 'f jsval" where
  "property (JObj fs) p = (case map_of fs p of Some v \<Rightarrow> v | None \<Rightarrow> JUndefined)"
| "property _ p = JUndefined"

text \<open>White space as \<open>String.prototype.trim\<close> sees it, among the code units below 256.\<close>

definition js_whitespace :: "char \<Rightarrow> bool" where
  "js_whitespace c = (c \<in> set [CHR 0x09, CHR 0x0A, CHR 0x0B, CHR 0x0C, CHR 0x0D, CHR 0x20, CHR 0xA0])"

definition trim :: "string \<Rightarrow> string" where
  "trim s = rev (dropWhile js_whitespace (rev (dropWhile js_whitespace s)))"

section \<open>Configuration (packageSortingConfig.js)\<close>

definition VOLUME_THRESHOLD :: jsnum where
  "VOLUME_THRESHOLD = Fin 1000000"

definition DIMENSION_THRESHOLD :: jsnum where
  "DIMENSION_THRESHOLD = Fin 150"

definition MASS_THRESHOLD :: jsnum where
  "MASS_THRESHOLD = Fin 20"

definition STANDARD :: string where
  "STANDARD = ''STANDARD''"

definition SPECIAL :: string where
  "SPECIAL = ''SPECIAL''"

definition REJECTED :: string where
  "REJECTED = ''REJECTED''"

definition PRIORITY_HIGH :: jsnum where
  "PRIORITY_HIGH = Fin 1"

definition PRIORITY_MEDIUM :: jsnum where
  "PRIORITY_MEDIUM = Fin 2"

definition PRIORITY_LOW :: jsnum where
  "PRIORITY_LOW = Fin 3"

section \<open>Threshold classifier (packageSorting.js)\<close>

text \<open>
  \<open>isBulky\<close>: the dimension test comes first and returns early; the volume is computed,
  left to right and each product rounded, only when no dimension alone reaches the
  threshold.
\<close>

definition isBulky :: "jsnum \<Rightarrow> jsnum \<Rightarrow> jsnum \<Rightarrow> bool" where
  "isBulky width height len =
     (if js_ge width DIMENSION_THRESHOLD \<or> js_ge height DIMENSION_THRESHOLD
         \<or> js_ge len DIMENSION_THRESHOLD
      then True
      else let volume = js_mul (js_mul width height) len
           in if js_ge volume VOLUME_THRESHOLD then True else False)"

definition isHeavy :: "jsnum \<Rightarrow> bool" where
  "isHeavy mass = js_ge mass MASS_THRESHOLD"

text \<open>\<open>sort\<close> of the original module: the decision matrix written out as an if-chain.\<close>

definition sort_matrix :: "jsnum \<Rightarrow> jsnum \<Rightarrow> jsnum \<Rightarrow> jsnum \<Rightarrow> string" where
  "sort_matrix width height len mass =
     (let bulky = isBulky width height len;
          heavy = isHeavy mass
      in if bulky \<and> heavy then REJECTED
         else if bulky \<or> heavy then SPECIAL
         else STANDARD)"

section \<open>Rules and conditions\<close>

text \<open>
  What a \<open>throw\<close> inside a condition hands to the \<open>catch\<close> block of \<open>evaluate\<close>. The
  block reads \<open>error.message\<close> and renders it in a template literal: on a thrown
  \<open>null\<close> or \<open>undefined\<close> that read itself raises a TypeError; on another value it
  gives a text (\<open>undefined\<close> when the value has no such property), which is all the
  engine uses of the value. Values whose message cannot be rendered as a string are not
  modelled.
\<close>

datatype thrown = ThrownNullish | ThrownWithMessage string

text \<open>The record handed to \<open>evaluate\<close>; its own function values are opaque.\<close>

type_synonym packageData = "unit jsval"

text \<open>A call of a condition returns a value or throws.\<close>

datatype outcome = Returns packageData | Throws thrown

type_synonym cond = "packageData \<Rightarrow> outcome"

text \<open>
  Every failure of the engine is \<open>throw new Error(message)\<close>; the TypeError is the one
  the runtime raises when the \<open>catch\<close> block reads the message of a thrown null or
  undefined.
\<close>

datatype error = Error string | TypeError

text \<open>A rule object that has passed \<open>_validateRule\<close>: the four properties the engine reads.\<close>

record rule =
  name :: string
  condition :: cond
  result :: string
  priority :: real

text \<open>The engine object: its only field is the array \<open>this.rules\<close>.\<close>

record engine =
  rules :: "rule list"

definition dquote :: string where
  "dquote = [CHR 0x22]"

definition squote :: string where
  "squote = [CHR 0x27]"

text \<open>
  \<open>v.p\<close> inside a condition: reading a property of null or undefined throws a TypeError
  (an object with a message, given here as V8 words it).
\<close>

definition get :: "packageData \<Rightarrow> string \<Rightarrow> thrown + packageData" where
  "get v p =
     (case v of
        JUndefined \<Rightarrow> Inl (ThrownWithMessage
          (''Cannot read properties of undefined (reading '' @ squote @ p @ squote @ '')''))
      | JNull \<Rightarrow> Inl (ThrownWithMessage
          (''Cannot read properties of null (reading '' @ squote @ p @ squote @ '')''))
      | _ \<Rightarrow> Inr (property v p))"

text \<open>\<open>(packageData) => packageData.bulky && packageData.heavy\<close>\<close>

definition rejected_condition :: cond where
  "rejected_condition packageData =
     (case get packageData ''bulky'' of
        Inl t \<Rightarrow> Throws t
      | Inr bulky \<Rightarrow>
          if truthy bulky
          then (case get packageData ''heavy'' of Inl t \<Rightarrow> Throws t | Inr heavy \<Rightarrow> Returns heavy)
          else Returns bulky)"

text \<open>\<open>(packageData) => packageData.bulky || packageData.heavy\<close>\<close>

definition special_condition :: cond where
  "special_condition packageData =
     (case get packageData ''bulky'' of
        Inl t \<Rightarrow> Throws t
      | Inr bulky \<Rightarrow>
          if truthy bulky
          then Returns bulky
          else (case get packageData ''heavy'' of Inl t \<Rightarrow> Throws t | Inr heavy \<Rightarrow> Returns heavy))"

text \<open>\<open>(packageData) => true\<close>\<close>

definition standard_condition :: cond where
  "standard_condition packageData = Returns (JBool True)"

definition CLASSIFICATION_RULES :: "cond jsval" where
  "CLASSIFICATION_RULES = JArr
     [JObj [(''name'', JStr ''rejected-packages''),
            (''condition'', JFun rejected_condition),
            (''result'', JStr REJECTED),
            (''priority'', JNum PRIORITY_HIGH)],
      JObj [(''name'', JStr ''special-packages''),
            (''condition'', JFun special_condition),
            (''result'', JStr SPECIAL),
            (''priority'', JNum PRIORITY_MEDIUM)],
      JObj [(''name'', JStr ''standard-packages''),
            (''condition'', JFun standard_condition),
            (''result'', JStr STANDARD),
            (''priority'', JNum PRIORITY_LOW)]]"

section \<open>The rule engine (class RuleEngine)\<close>

definition requiredProperties :: "string list" where
  "requiredProperties = [''name'', ''condition'', ''result'', ''priority'']"

text \<open>
  \<open>_validateRule\<close>: the checks in the order of the source, each with its own message. The
  validated rule is the object itself; the model keeps the four properties, typed.
\<close>

definition validateRule :: "cond jsval \<Rightarrow> error + rule" where
  "validateRule rule =
     (if \<not> truthy rule \<or> \<not> typeof_object rule then Inl (Error ''Rule must be an object'')
      else case find (\<lambda>prop. \<not> has_property prop rule) requiredProperties of
        Some prop \<Rightarrow> Inl (Error (''Rule is missing required property: '' @ prop))
      | None \<Rightarrow>
         (case property rule ''name'' of
            JStr n \<Rightarrow>
              if trim n = [] then Inl (Error ''Rule name must be a non-empty string'')
              else (case property rule ''condition'' of
                JFun c \<Rightarrow>
                  (case property rule ''result'' of
                     JStr r \<Rightarrow>
                       if trim r = [] then Inl (Error ''Rule result must be a non-empty string'')
                       else (case property rule ''priority'' of
                         JNum q \<Rightarrow>
                           if js_lt q (Fin 0) \<or> \<not> isFinite q
                           then Inl (Error ''Rule priority must be a non-negative number'')
                           else (case q of
                             Fin p \<Rightarrow> Inr \<lparr>name = n, condition = c, result = r, priority = p\<rparr>
                           | _ \<Rightarrow> Inl (Error ''Rule priority must be a non-negative number''))
                       | _ \<Rightarrow> Inl (Error ''Rule priority must be a non-negative number''))
                   | _ \<Rightarrow> Inl (Error ''Rule result must be a non-empty string''))
              | _ \<Rightarrow> Inl (Error ''Rule condition must be a function''))
          | _ \<Rightarrow> Inl (Error ''Rule name must be a non-empty string'')))"

text \<open>\<open>rules.map((rule) => this._validateRule(rule))\<close>: left to right, the first failure is thrown.\<close>

fun validate_each :: "cond jsval list \<Rightarrow> error + rule list" where
  "validate_each [] = Inr []"
| "validate_each (x # xs) =
     (case validateRule x of
        Inl e \<Rightarrow> Inl e
      | Inr r \<Rightarrow> (case validate_each xs of Inl e \<Rightarrow> Inl e | Inr rs \<Rightarrow> Inr (r # rs)))"

text \<open>
  \<open>this.rules.sort((a, b) => a.priority - b.priority)\<close>. The priorities of validated
  rules are finite and not negative, so the sign of the difference is the order of the
  two numbers; \<open>Array.prototype.sort\<close> is stable, and the stable ascending sort by a key
  is \<open>sort_key\<close>.
\<close>

definition sort_by_priority :: "rule list \<Rightarrow> rule list" where
  "sort_by_priority rs = sort_key priority rs"

text \<open>The constructor: the engine, or the error thrown.\<close>

definition new_RuleEngine :: "cond jsval \<Rightarrow> error + engine" where
  "new_RuleEngine rs =
     (case rs of
        JArr xs \<Rightarrow>
          if length xs = 0 then Inl (Error ''Rules array cannot be empty'')
          else (case validate_each xs of
                  Inl e \<Rightarrow> Inl e
                | Inr vs \<Rightarrow> Inr \<lparr>rules = sort_by_priority vs\<rparr>)
      | _ \<Rightarrow> Inl (Error ''Rules must be an array''))"

text \<open>
  The loop of \<open>evaluate\<close>. The first component lists the rules whose condition was
  called, in the order of the calls; the second is what the loop returns or throws.
\<close>

fun scan :: "rule list \<Rightarrow> packageData \<Rightarrow> rule list \<times> (error + string)" where
  "scan [] packageData = ([], Inl (Error ''No matching rule found for package data''))"
| "scan (rule # rest) packageData =
     (case condition rule packageData of
        Throws t \<Rightarrow>
          ([rule],
           (case t of
              ThrownNullish \<Rightarrow> Inl TypeError
            | ThrownWithMessage m \<Rightarrow>
                Inl (Error (''Error evaluating rule '' @ dquote @ name rule @ dquote @ '': '' @ m))))
      | Returns v \<Rightarrow>
          if truthy v then ([rule], Inr (result rule))
          else (case scan rest packageData of (called, r) \<Rightarrow> (rule # called, r)))"

text \<open>
  \<open>evaluate\<close>: the calls made, the label or the error, and the engine after the call.
\<close>

definition evaluate :: "engine \<Rightarrow> packageData \<Rightarrow> rule list \<times> (error + string) \<times> engine" where
  "evaluate this packageData =
     (if \<not> truthy packageData \<or> \<not> typeof_object packageData
      then ([], Inl (Error ''Package data must be an object''), this)
      else (case scan (rules this) packageData of (called, r) \<Rightarrow> (called, r, this)))"

text \<open>\<open>addRule\<close>: success or the error thrown, and the engine after the call.\<close>

definition addRule :: "engine \<Rightarrow> cond jsval \<Rightarrow> (error + unit) \<times> engine" where
  "addRule this rule =
     (case validateRule rule of
        Inl e \<Rightarrow> (Inl e, this)
      | Inr validatedRule \<Rightarrow>
          if list_ex (\<lambda>existingRule. name existingRule = name validatedRule) (rules this)
          then (Inl (Error (''Rule with name '' @ dquote @ name validatedRule @ dquote
                            @ '' already exists'')), this)
          else (Inr (), this\<lparr>rules := sort_by_priority (rules this @ [validatedRule])\<rparr>))"

text \<open>
  \<open>removeRule\<close>: the filtered array is stored before the lengths are compared, so the
  engine after a failed removal holds the filtered array.
\<close>

definition removeRule :: "engine \<Rightarrow> 'f jsval \<Rightarrow> (error + unit) \<times> engine" where
  "removeRule this ruleName =
     (case ruleName of
        JStr n \<Rightarrow>
          if trim n = [] then (Inl (Error ''Rule name must be a non-empty string''), this)
          else (let initialLength = length (rules this);
                    this' = this\<lparr>rules := filter (\<lambda>rule. name rule \<noteq> n) (rules this)\<rparr>
                in if length (rules this') = initialLength
                   then (Inl (Error (''Rule with name '' @ dquote @ n @ dquote @ '' not found'')), this')
                   else (Inr (), this'))
      | _ \<Rightarrow> (Inl (Error ''Rule name must be a non-empty string''), this))"

text \<open>
  \<open>sort\<close> of the rule-based module: builds the record with the computed flags, constructs
  an engine from the default rules and evaluates the record.
\<close>

definition sort_rulebased :: "jsnum \<Rightarrow> jsnum \<Rightarrow> jsnum \<Rightarrow> jsnum \<Rightarrow> error + string" where
  "sort_rulebased width height len mass =
     (let packageData = JObj [(''width'', JNum width), (''height'', JNum height),
                              (''length'', JNum len), (''mass'', JNum mass),
                              (''bulky'', JBool (isBulky width height len)),
                              (''heavy'', JBool (isHeavy mass))]
      in case new_RuleEngine CLASSIFICATION_RULES of
           Inl e \<Rightarrow> Inl e
         | Inr ruleEngine \<Rightarrow> fst (snd (evaluate ruleEngine packageData)))"

text \<open>
  The engines a program can hold: built by the constructor, then changed by calls of
  \<open>addRule\<close> and \<open>removeRule\<close> that return.
\<close>

inductive reachable :: "engine \<Rightarrow> bool" where
  constructed: "new_RuleEngine rs = Inr this \<Longrightarrow> reachable this"
| added: "reachable this \<Longrightarrow> addRule this rule = (Inr (), this') \<Longrightarrow> reachable this'"
| removed: "reachable this \<Longrightarrow> removeRule this (ruleName :: unit jsval) = (Inr (), this')
     \<Longrightarrow> reachable this'"

section \<open>Vocabulary of the properties\<close>

text \<open>
  A record is structured when \<open>evaluate\<close> lets it through its guard: not falsy, and of
  type object.
\<close>

definition structured :: "packageData \<Rightarrow> bool" where
  "structured pd = (truthy pd \<and> typeof_object pd)"

text \<open>
  A rule matches a record when its condition returns a value that \<open>if (...)\<close> takes for
  true; it throws on a record when the call of its condition throws.
\<close>

definition matches :: "rule \<Rightarrow> packageData \<Rightarrow> bool" where
  "matches r pd = (case condition r pd of Returns v \<Rightarrow> truthy v | Throws _ \<Rightarrow> False)"

definition throws :: "rule \<Rightarrow> packageData \<Rightarrow> bool" where
  "throws r pd = (case condition r pd of Returns _ \<Rightarrow> False | Throws _ \<Rightarrow> True)"

text \<open>The default rules once validated, in the order of the configuration.\<close>

definition default_rules :: "rule list" where
  "default_rules =
     [\<lparr>name = ''rejected-packages'', condition = rejected_condition, result = REJECTED, priority = 1\<rparr>,
      \<lparr>name = ''special-packages'', condition = special_condition, result = SPECIAL, priority = 2\<rparr>,
      \<lparr>name = ''standard-packages'', condition = standard_condition, result = STANDARD, priority = 3\<rparr>]"

section \<open>Rules of the test suite and of the usage examples\<close>

text \<open>\<open>() => true\<close> and \<open>() => false\<close>\<close>

definition always :: cond where
  "always packageData = Returns (JBool True)"

definition never :: cond where
  "never packageData = Returns (JBool False)"

text \<open>The object literal \<open>{ name: n, condition: c, result: r, priority: p }\<close>.\<close>

definition raw_rule :: "string \<Rightarrow> cond \<Rightarrow> string \<Rightarrow> real \<Rightarrow> cond jsval" where
  "raw_rule n c r p =
     JObj [(''name'', JStr n), (''condition'', JFun c), (''result'', JStr r), (''priority'', JNum (Fin p))]"

text \<open>The two rules of the test "should handle rules with same priority".\<close>

definition samePriorityRules :: "cond jsval list" where
  "samePriorityRules = [raw_rule ''rule-1'' always ''FIRST'' 1, raw_rule ''rule-2'' always ''SECOND'' 1]"

definition rule_1 :: rule where
  "rule_1 = \<lparr>name = ''rule-1'', condition = always, result = ''FIRST'', priority = 1\<rparr>"

definition rule_2 :: rule where
  "rule_2 = \<lparr>name = ''rule-2'', condition = always, result = ''SECOND'', priority = 1\<rparr>"

text \<open>The rule of the test "should throw error when no rules match".\<close>

definition never_match :: rule where
  "never_match = \<lparr>name = ''never-match'', condition = never, result = ''NEVER'', priority = 1\<rparr>"

text \<open>
  The rule of the usage example for \<open>addRule\<close>: condition
  \<open>(pkg) => pkg.express === true\<close>, priority 0.
\<close>

definition express_condition :: cond where
  "express_condition pkg =
     (case get pkg ''express'' of
        Inl t \<Rightarrow> Throws t
      | Inr express \<Rightarrow> Returns (JBool (express = JBool True)))"

definition express_rule :: rule where
  "express_rule = \<lparr>name = ''express-packages'', condition = express_condition, result = ''EXPRESS'', priority = 0\<rparr>"

text \<open>
  The two rules of the usage example "Duplicate rule names", which the example expects
  the constructor to refuse.
\<close>

definition test_A :: rule where
  "test_A = \<lparr>name = ''test'', condition = always, result = ''A'', priority = 1\<rparr>"

definition test_B :: rule where
  "test_B = \<lparr>name = ''test'', condition = never, result = ''B'', priority = 2\<rparr>"

text \<open>
  The rule "error-rule" of the test suite, with \<open>() => { throw null; }\<close> for its
  condition in place of one that throws an \<open>Error\<close>.
\<close>

definition throw_null :: cond where
  "throw_null packageData = Throws ThrownNullish"

definition error_rule :: rule where
  "error_rule = \<lparr>name = ''error-rule'', condition = throw_null, result = ''ERROR'', priority = 1\<rparr>"

text \<open>
  Two packages whose volume is within rounding of the threshold, each dimension a binary64
  number: the numbers written \<open>50.8647\<close>, \<open>135.8506\<close>, \<open>144.7178\<close>, whose exact product is
  below 1000000, and \<open>147.68\<close>, \<open>89.85\<close>, \<open>75.36335688890416\<close>, whose exact product is above
  it.
\<close>

definition width_below :: real where
  "width_below = 1789642530986813 / 2 ^ 45"

definition height_below :: real where
  "height_below = 597477257361385 / 2 ^ 42"

definition length_below :: real where
  "length_below = 1272951230769293 / 2 ^ 43"

definition width_above :: real where
  "width_above = 2598014035039355 / 2 ^ 44"

definition height_above :: real where
  "height_above = 3161315832181555 / 2 ^ 45"

definition length_above :: real where
  "length_above = 5303224781285289 / 2 ^ 46"

section \<open>Auxiliary facts\<close>

subsection \<open>Rounding\<close>

lemma exponent_bounds:
  assumes "x \<noteq> 0"
  shows "2 powi exponent x \<le> \<bar>x\<bar>" "\<bar>x\<bar> < 2 powi (exponent x + 1)"
proof -
  have "2 powi exponent x \<le> \<bar>x\<bar> \<and> \<bar>x\<bar> < 2 powi (exponent x + 1)"
  proof (cases "1 \<le> \<bar>x\<bar>")
    case True
    define n where "n = \<lfloor>\<bar>x\<bar>\<rfloor>"
    have n: "0 < n" using True by (simp add: n_def)
    have e: "exponent x = bitlen n - 1" using True by (simp add: exponent_def n_def)
    from bitlen_bounds [OF n] have b: "2 ^ nat (bitlen n - 1) \<le> n" "n < 2 ^ nat (bitlen n)" by auto
    have pos: "0 \<le> bitlen n - 1" using n bitlen_eq_zero_iff bitlen_nonneg [of n] by (smt (verit))
    have "2 powi (bitlen n - 1) = (2::real) ^ nat (bitlen n - 1)"
      using pos by (simp add: power_int_def)
    also have "\<dots> \<le> of_int n" using b(1)
      by (metis of_int_le_iff of_int_numeral of_int_power)
    also have "\<dots> \<le> \<bar>x\<bar>" by (simp add: n_def)
    finally have lo: "2 powi (bitlen n - 1) \<le> \<bar>x\<bar>" .
    have "n + 1 \<le> 2 ^ nat (bitlen n)" using b(2) by simp
    then have "real_of_int (n + 1) \<le> 2 ^ nat (bitlen n)"
      by (metis of_int_le_iff of_int_numeral of_int_power)
    moreover have "\<bar>x\<bar> < of_int (n + 1)" unfolding n_def by linarith
    ultimately have "\<bar>x\<bar> < 2 ^ nat (bitlen n)" by linarith
    moreover have "(2::real) powi (bitlen n - 1 + 1) = 2 ^ nat (bitlen n)"
      using pos by (simp add: power_int_def)
    ultimately show ?thesis using lo e by simp
  next
    case False
    define y where "y = 1 / \<bar>x\<bar>"
    define n where "n = \<lceil>y\<rceil>"
    define k where "k = bitlen (n - 1)"
    have y1: "1 < y" using False assms by (simp add: y_def)
    have n2: "0 < n - 1" using y1 unfolding n_def by linarith
    have e: "exponent x = - k" using False by (simp add: exponent_def n_def y_def k_def)
    from bitlen_bounds [OF n2] have b: "2 ^ nat (k - 1) \<le> n - 1" "n - 1 < 2 ^ nat k"
      by (auto simp: k_def)
    have kpos: "0 < k" using n2 bitlen_eq_zero_iff [of "n - 1"] bitlen_nonneg [of "n - 1"]
      unfolding k_def by (smt (verit))
    have "n \<le> 2 ^ nat k" using b(2) by simp
    then have "real_of_int n \<le> 2 ^ nat k"
      by (metis of_int_le_iff of_int_numeral of_int_power)
    moreover have "y \<le> of_int n" unfolding n_def by linarith
    ultimately have yle: "y \<le> 2 ^ nat k" by linarith
    have "2 ^ nat (k - 1) \<le> real_of_int (n - 1)" using b(1)
      by (metis of_int_le_iff of_int_numeral of_int_power)
    moreover have "of_int (n - 1) < y" unfolding n_def by linarith
    ultimately have ygt: "2 ^ nat (k - 1) < y" by linarith
    have xy: "\<bar>x\<bar> = 1 / y" using assms by (simp add: y_def)
    have "2 powi (- k) = 1 / (2::real) powi k" by (rule power_int_minus_divide)
    also have "2 powi k = (2::real) ^ nat k"
      using kpos by (simp add: power_int_def)
    finally have "2 powi (- k) = 1 / (2::real) ^ nat k" .
    also have "\<dots> \<le> 1 / y" using yle y1 by (intro divide_left_mono) auto
    finally have lo: "2 powi (- k) \<le> \<bar>x\<bar>" by (simp add: xy)
    have "1 / y < 1 / (2::real) ^ nat (k - 1)" using ygt y1
      by (intro divide_strict_left_mono) (auto intro: mult_pos_pos)
    moreover have "2 powi (- k + 1) = 1 / (2::real) ^ nat (k - 1)"
    proof -
      have "- k + 1 = - (k - 1)" by simp
      then have "(2::real) powi (- k + 1) = 2 powi (- (k - 1))" by (simp only:)
      also have "\<dots> = 1 / 2 powi (k - 1)" by (rule power_int_minus_divide)
      also have "2 powi (k - 1) = (2::real) ^ nat (k - 1)"
        using kpos by (simp add: power_int_def)
      finally show ?thesis .
    qed
    ultimately have "\<bar>x\<bar> < 2 powi (- k + 1)" by (simp add: xy)
    with lo e show ?thesis by simp
  qed
  then show "2 powi exponent x \<le> \<bar>x\<bar>" "\<bar>x\<bar> < 2 powi (exponent x + 1)" by auto
qed

lemma round_half_even_error: "\<bar>of_int (round_half_even r) - r\<bar> \<le> 1 / 2"
  unfolding round_half_even_def Let_def by (auto; linarith)


lemma exponent_eqI:
  assumes "x \<noteq> 0" "2 powi e \<le> \<bar>x\<bar>" "\<bar>x\<bar> < 2 powi (e + 1)"
  shows "exponent x = e"
proof -
  note b = exponent_bounds [OF assms(1)]
  have "(2::real) powi exponent x < 2 powi (e + 1)" using b(1) assms(3) by linarith
  then have "exponent x < e + 1"
    by (metis less_le_not_le linorder_not_le one_le_numeral power_int_increasing)
  moreover have "(2::real) powi e < 2 powi (exponent x + 1)" using b(2) assms(2) by linarith
  then have "e < exponent x + 1"
    by (metis less_le_not_le linorder_not_le one_le_numeral power_int_increasing)
  ultimately show ?thesis by simp
qed

text \<open>The exponent computed from bit lengths is the floor of the binary logarithm.\<close>

lemma exponent_floor_log:
  assumes "x \<noteq> 0"
  shows "exponent x = \<lfloor>log 2 \<bar>x\<bar>\<rfloor>"
proof -
  have p: "(2::real) powr real_of_int k = 2 powi k" for k
    by (rule powr_real_of_int') auto
  have lo: "2 powr real_of_int (exponent x) \<le> \<bar>x\<bar>"
    using exponent_bounds(1) [OF assms] by (simp only: p)
  have "real_of_int (exponent x) + 1 = real_of_int (exponent x + 1)" by simp
  then have "2 powr (real_of_int (exponent x) + 1) = 2 powi (exponent x + 1)"
    by (simp only: p)
  then have hi: "\<bar>x\<bar> < 2 powr (real_of_int (exponent x) + 1)"
    using exponent_bounds(2) [OF assms] by (simp only:)
  have "0 < \<bar>x\<bar>" using assms by simp
  then have "\<lfloor>log 2 \<bar>x\<bar>\<rfloor> = exponent x"
    using lo hi by (subst floor_log_eq_powr_iff) simp_all
  then show ?thesis by simp
qed

text \<open>
  How to compute \<open>round64\<close> at a given number in the normal range: name its exponent
  and its rounded significand.
\<close>

lemma round64_eval:
  assumes "x \<noteq> 0" "2 powi e \<le> \<bar>x\<bar>" "\<bar>x\<bar> < 2 powi (e + 1)" "- 1022 \<le> e"
      and "round_half_even (x / 2 powi (e - 52)) = m"
      and "\<bar>real_of_int m * 2 powi (e - 52)\<bar> < 2 ^ 1024"
  shows "round64 x = Fin (of_int m * 2 powi (e - 52))"
proof -
  have "exponent x = e" using assms(1-3) by (rule exponent_eqI)
  moreover have "max (e - 52) (- 1074) = e - 52" using assms(4) by simp
  ultimately show ?thesis
    using assms(1,5,6) by (simp add: round64_def nearest64_def Let_def del: power_int_numeral)
qed

lemma round_half_even_nonneg: "0 \<le> r \<Longrightarrow> 0 \<le> round_half_even r"
  by (auto simp: round_half_even_def Let_def)

lemma nearest64_nonneg: "0 \<le> x \<Longrightarrow> 0 \<le> nearest64 x"
  by (simp add: nearest64_def Let_def round_half_even_nonneg)

lemma nearest64_error:
  assumes "x \<noteq> 0"
  shows "\<bar>nearest64 x - x\<bar> \<le> \<bar>x\<bar> / 2 ^ 53 + 1 / 2 ^ 1075"
proof -
  define q where "q = max (exponent x - 52) (- 1074)"
  define m where "m = round_half_even (x / 2 powi q)"
  have pq: "0 < (2::real) powi q" by simp
  have y: "nearest64 x = of_int m * 2 powi q"
    by (simp add: nearest64_def Let_def q_def m_def)
  have "\<bar>of_int m - x / 2 powi q\<bar> \<le> 1 / 2"
    unfolding m_def by (rule round_half_even_error)
  then have "\<bar>of_int m - x / 2 powi q\<bar> * 2 powi q \<le> 1 / 2 * 2 powi q"
    using pq by (intro mult_right_mono) auto
  moreover have "\<bar>of_int m - x / 2 powi q\<bar> * 2 powi q = \<bar>of_int m * 2 powi q - x\<bar>"
  proof -
    have "\<bar>of_int m - x / 2 powi q\<bar> * 2 powi q = \<bar>(of_int m - x / 2 powi q) * 2 powi q\<bar>"
      using pq by (simp add: abs_mult)
    also have "(of_int m - x / 2 powi q) * 2 powi q = of_int m * 2 powi q - x"
      using pq by (simp add: field_simps)
    finally show ?thesis .
  qed
  ultimately have err: "\<bar>nearest64 x - x\<bar> \<le> 2 powi q / 2" by (simp add: y)
  have "2 powi q / 2 \<le> \<bar>x\<bar> / 2 ^ 53 + 1 / 2 ^ 1075"
  proof (cases "- 1074 \<le> exponent x - 52")
    case True
    then have "q = exponent x - 52" by (simp add: q_def)
    then have "(2::real) powi q = 2 powi exponent x / 2 powi 52"
      by (simp add: power_int_diff)
    then have "(2::real) powi q / 2 = 2 powi exponent x / 2 ^ 53" by simp
    also have "\<dots> \<le> \<bar>x\<bar> / 2 ^ 53"
      using exponent_bounds(1) [OF assms] by (intro divide_right_mono) auto
    finally show ?thesis by simp
  next
    case False
    then have "q = - 1074" by (simp add: q_def)
    then have "(2::real) powi q / 2 = 1 / 2 ^ 1075" by (simp add: power_int_minus_divide)
    then show ?thesis by simp
  qed
  with err show ?thesis by linarith
qed

text \<open>Below the overflow range a non-negative product rounds to a finite number near it.\<close>

lemma round64_small:
  assumes "0 \<le> x" "x < 2 ^ 1023"
  shows "\<exists>y. round64 x = Fin y \<and> 0 \<le> y \<and> \<bar>y - x\<bar> \<le> x / 2 ^ 53 + 1 / 2 ^ 1075"
proof (cases "x = 0")
  case True
  then show ?thesis by (simp add: round64_def)
next
  case False
  have e: "\<bar>nearest64 x - x\<bar> \<le> x / 2 ^ 53 + 1 / 2 ^ 1075"
    using nearest64_error [OF False] assms(1) by simp
  have n: "0 \<le> nearest64 x" using assms(1) by (rule nearest64_nonneg)
  have "x / 2 ^ 53 + 1 / 2 ^ 1075 < 2 ^ 1023" using assms by simp
  then have "\<bar>nearest64 x\<bar> < 2 ^ 1024" using e assms(2) by auto
  then have "round64 x = Fin (nearest64 x)"
    using False by (simp add: round64_def Let_def del: power_numeral)
  with e n show ?thesis by blast
qed


text \<open>The rounded products of the literal scenarios, and of the two packages near the threshold.\<close>

lemma round64_10000: "round64 10000 = Fin 10000"
  using round64_eval [of 10000 13 5497558138880000]
  by (simp add: round_half_even_def)

lemma round64_1000000: "round64 1000000 = Fin 1000000"
  using round64_eval [of 1000000 19 8589934592000000]
  by (simp add: round_half_even_def)

lemma round64_2500: "round64 2500 = Fin 2500"
  using round64_eval [of 2500 11 5497558138880000]
  by (simp add: round_half_even_def)

lemma round64_125000: "round64 125000 = Fin 125000"
  using round64_eval [of 125000 16 8589934592000000]
  by (simp add: round_half_even_def)

lemma representable_below:
  "representable width_below" "representable height_below" "representable length_below"
  using round64_eval [of "1789642530986813 / 2 ^ 45" 5 7158570123947252]
        round64_eval [of "597477257361385 / 2 ^ 42" 7 4779818058891080]
        round64_eval [of "1272951230769293 / 2 ^ 43" 7 5091804923077172]
  by (simp_all add: representable_def width_below_def height_below_def length_below_def
      round_half_even_def)

lemma representable_above:
  "representable width_above" "representable height_above" "representable length_above"
  using round64_eval [of "2598014035039355 / 2 ^ 44" 7 5196028070078710]
        round64_eval [of "3161315832181555 / 2 ^ 45" 6 6322631664363110]
        round64_eval [of "5303224781285289 / 2 ^ 46" 6 5303224781285289]
  by (simp_all add: representable_def width_above_def height_above_def length_above_def
      round_half_even_def)

lemma volume_below:
  "js_mul (js_mul (Fin width_below) (Fin height_below)) (Fin length_below) = Fin 1000000"
proof -
  have "round64 (width_below * height_below) = Fin (3798812681563705 / 2 ^ 39)"
    using round64_eval [of "1789642530986813 / 2 ^ 45 * (597477257361385 / 2 ^ 42)" 12 7597625363127410]
    by (simp add: width_below_def height_below_def round_half_even_def)
  moreover have "round64 (3798812681563705 / 2 ^ 39 * length_below) = Fin 1000000"
    using round64_eval [of "3798812681563705 / 2 ^ 39 * (1272951230769293 / 2 ^ 43)" 19 8589934592000000]
    by (simp add: length_below_def round_half_even_def)
  ultimately show ?thesis by simp
qed

lemma volume_above:
  "js_mul (js_mul (Fin width_above) (Fin height_above)) (Fin length_above)
     = Fin (8589934591999999 / 2 ^ 33)"
proof -
  have "round64 (width_above * height_above) = Fin (3647368141379469 / 2 ^ 38)"
    using round64_eval [of "2598014035039355 / 2 ^ 44 * (3161315832181555 / 2 ^ 45)" 13 7294736282758938]
    by (simp add: width_above_def height_above_def round_half_even_def)
  moreover have "round64 (3647368141379469 / 2 ^ 38 * length_above) = Fin (8589934591999999 / 2 ^ 33)"
    using round64_eval [of "3647368141379469 / 2 ^ 38 * (5303224781285289 / 2 ^ 46)" 19 8589934591999999]
    by (simp add: length_above_def round_half_even_def)
  ultimately show ?thesis by simp
qed

text \<open>
  The volume of a package with all dimensions below 150 is finite, and two roundings
  away from the exact product.
\<close>

lemma volume_rounded:
  assumes "0 \<le> a" "a < 150" "0 \<le> b" "b < 150" "0 \<le> c" "c < 150"
  shows "\<exists>v. js_mul (js_mul (Fin a) (Fin b)) (Fin c) = Fin v
           \<and> a * b * c * (1 - 1 / 2 ^ 53) * (1 - 1 / 2 ^ 53) - 151 / 2 ^ 1075 \<le> v
           \<and> v \<le> a * b * c * (1 + 1 / 2 ^ 53) * (1 + 1 / 2 ^ 53) + 152 / 2 ^ 1075"
proof -
  define u :: real where "u = 1 / 2 ^ 53"
  define t :: real where "t = 1 / 2 ^ 1075"
  have u: "0 < u" "u < 1" and t: "0 < t" by (simp_all add: u_def t_def)
  have ab: "0 \<le> a * b" "a * b < 150 * 150"
    using assms(1,3) mult_strict_mono' [OF assms(2) assms(4) assms(1) assms(3)] by simp_all
  then have "a * b < 2 ^ 1023" by simp
  with ab(1) obtain p where p: "round64 (a * b) = Fin p" "0 \<le> p" "\<bar>p - a * b\<bar> \<le> a * b * u + t"
    using round64_small [of "a * b"] by (auto simp: u_def t_def)
  have p_hi: "p \<le> a * b * (1 + u) + t" and p_lo: "a * b * (1 - u) - t \<le> p"
    using p(3) by (simp_all add: algebra_simps abs_le_iff)
  have p_small: "p < 150 * 150 * 2 + 1" using p_hi ab u t by (simp add: u_def t_def)
  have pc: "0 \<le> p * c" "p * c < (150 * 150 * 2 + 1) * 150"
    using p(2) assms(5) mult_strict_mono' [OF p_small assms(6) p(2) assms(5)] by simp_all
  then have "p * c < 2 ^ 1023" by simp
  with pc(1) obtain v where v: "round64 (p * c) = Fin v" "\<bar>v - p * c\<bar> \<le> p * c * u + t"
    using round64_small [of "p * c"] by (auto simp: u_def t_def)
  have v_hi: "v \<le> p * c * (1 + u) + t" and v_lo: "p * c * (1 - u) - t \<le> v"
    using v(2) by (simp_all add: algebra_simps abs_le_iff)
  have "p * c \<le> (a * b * (1 + u) + t) * c"
    using p_hi assms(5) by (rule mult_right_mono)
  also have "\<dots> = a * b * c * (1 + u) + t * c" by (simp add: algebra_simps)
  also have "\<dots> \<le> a * b * c * (1 + u) + t * 150"
    using assms(6) t by simp
  finally have pc_hi: "p * c \<le> a * b * c * (1 + u) + t * 150" .
  have "a * b * c * (1 - u) - t * 150 \<le> a * b * c * (1 - u) - t * c"
    using assms(6) t by simp
  also have "\<dots> = (a * b * (1 - u) - t) * c" by (simp add: algebra_simps)
  also have "\<dots> \<le> p * c"
    using p_lo assms(5) by (rule mult_right_mono)
  finally have pc_lo: "a * b * c * (1 - u) - t * 150 \<le> p * c" .
  have "p * c * (1 + u) \<le> (a * b * c * (1 + u) + t * 150) * (1 + u)"
    using pc_hi u by (intro mult_right_mono) auto
  then have hi: "v \<le> a * b * c * (1 + u) * (1 + u) + t * 150 * (1 + u) + t"
    using v_hi by (simp add: algebra_simps)
  have "(a * b * c * (1 - u) - t * 150) * (1 - u) \<le> p * c * (1 - u)"
    using pc_lo u by (intro mult_right_mono) auto
  then have lo: "a * b * c * (1 - u) * (1 - u) - t * 150 * (1 - u) - t \<le> v"
    using v_lo by (simp add: algebra_simps)
  have "150 * u \<le> 1" by (simp add: u_def)
  then have tu: "t * (150 * u) \<le> t * 1" "0 \<le> t * (150 * u)"
    using t u by (auto intro: mult_left_mono)
  have "t * 150 * (1 + u) + t = 151 * t + t * (150 * u)" by (simp add: algebra_simps)
  with tu have "t * 150 * (1 + u) + t \<le> 152 * t" by linarith
  with hi have hi': "v \<le> a * b * c * (1 + u) * (1 + u) + 152 * t" by linarith
  have "t * 150 * (1 - u) + t = 151 * t - t * (150 * u)" by (simp add: algebra_simps)
  with tu have "t * 150 * (1 - u) + t \<le> 151 * t" by linarith
  with lo have lo': "a * b * c * (1 - u) * (1 - u) - 151 * t \<le> v" by linarith
  show ?thesis
    using p(1) v(1) hi' lo' by (simp add: u_def t_def)
qed


lemma dropWhile_none: "\<forall>x\<in>set xs. \<not> P x \<Longrightarrow> dropWhile P xs = xs"
  by (cases xs) auto

lemma trim_no_whitespace: "\<forall>c\<in>set s. \<not> js_whitespace c \<Longrightarrow> trim s = s"
  by (simp add: trim_def dropWhile_none)

lemma validate_raw_rule:
  "\<forall>c\<in>set n. \<not> js_whitespace c \<Longrightarrow> n \<noteq> [] \<Longrightarrow> \<forall>c\<in>set r. \<not> js_whitespace c \<Longrightarrow> r \<noteq> []
   \<Longrightarrow> 0 \<le> p
   \<Longrightarrow> validateRule (raw_rule n c r p) = Inr \<lparr>name = n, condition = c, result = r, priority = p\<rparr>"
  by (simp add: validateRule_def raw_rule_def requiredProperties_def trim_no_whitespace)

lemma trim_nonempty_literals:
  "trim ''rejected-packages'' \<noteq> []" "trim ''special-packages'' \<noteq> []" "trim ''standard-packages'' \<noteq> []"
  "trim ''REJECTED'' \<noteq> []" "trim ''SPECIAL'' \<noteq> []" "trim ''STANDARD'' \<noteq> []"
  by (simp_all add: trim_def js_whitespace_def)

text \<open>The constructor accepts the default rules and keeps their order.\<close>

lemma default_engine:
  "new_RuleEngine CLASSIFICATION_RULES = Inr \<lparr>rules = default_rules\<rparr>"
  by (simp add: new_RuleEngine_def CLASSIFICATION_RULES_def validateRule_def requiredProperties_def
      trim_nonempty_literals REJECTED_def SPECIAL_def STANDARD_def PRIORITY_HIGH_def
      PRIORITY_MEDIUM_def PRIORITY_LOW_def sort_by_priority_def default_rules_def)

lemma samePriority_validated: "validate_each samePriorityRules = Inr [rule_1, rule_2]"
  by (simp add: samePriorityRules_def validate_raw_rule js_whitespace_def rule_1_def rule_2_def)

lemma samePriority_engine: "new_RuleEngine (JArr samePriorityRules) = Inr \<lparr>rules = [rule_1, rule_2]\<rparr>"
  using samePriority_validated
  by (simp add: new_RuleEngine_def sort_by_priority_def samePriorityRules_def rule_1_def rule_2_def)

lemma new_RuleEngine_rules:
  "new_RuleEngine rs = Inr this \<longleftrightarrow>
     (\<exists>xs vs. rs = JArr xs \<and> xs \<noteq> [] \<and> validate_each xs = Inr vs
        \<and> this = \<lparr>rules = sort_by_priority vs\<rparr>)"
  by (auto simp: new_RuleEngine_def split: jsval.splits sum.splits if_splits)

lemma filter_same_length: "length (filter P xs) = length xs \<Longrightarrow> filter P xs = xs"
  by (metis filter_id_conv length_filter_less less_irrefl_nat)

lemma list_ex_key: "list_ex (\<lambda>r. f r = k) xs \<longleftrightarrow> k \<in> set (map f xs)"
  by (induction xs) auto

text \<open>What a validated rule says about the object it came from.\<close>

lemma validateRule_fields:
  assumes "validateRule rule = Inr v"
  shows "property rule ''name'' = JStr (name v)" "trim (name v) \<noteq> []"
        "property rule ''condition'' = JFun (condition v)"
        "property rule ''result'' = JStr (result v)" "trim (result v) \<noteq> []"
        "property rule ''priority'' = JNum (Fin (priority v))" "0 \<le> priority v"
  using assms
  by (auto simp: validateRule_def split: if_splits option.splits jsval.splits jsnum.splits)

lemma validate_each_valid:
  "validate_each xs = Inr vs \<Longrightarrow>
   \<forall>r\<in>set vs. trim (name r) \<noteq> [] \<and> trim (result r) \<noteq> [] \<and> 0 \<le> priority r"
  by (induction xs arbitrary: vs) (auto split: sum.splits dest: validateRule_fields)

lemma reachable_default: "reachable \<lparr>rules = default_rules\<rparr>"
  using default_engine by (rule reachable.constructed)

lemma express_valid:
  "validateRule (raw_rule ''express-packages'' express_condition ''EXPRESS'' 0) = Inr express_rule"
  by (simp add: validate_raw_rule js_whitespace_def express_rule_def)

lemma duplicate_valid:
  "validateRule (raw_rule ''rejected-packages'' always ''DUPLICATE'' 5)
     = Inr \<lparr>name = ''rejected-packages'', condition = always, result = ''DUPLICATE'', priority = 5\<rparr>"
  by (simp add: validate_raw_rule js_whitespace_def)

lemma never_match_engine:
  "new_RuleEngine (JArr [raw_rule ''never-match'' never ''NEVER'' 1]) = Inr \<lparr>rules = [never_match]\<rparr>"
  by (simp add: new_RuleEngine_def validate_raw_rule js_whitespace_def sort_by_priority_def never_match_def)

lemma never_match_removed:
  "removeRule \<lparr>rules = [never_match]\<rparr> (JStr ''never-match'' :: unit jsval) = (Inr (), \<lparr>rules = []\<rparr>)"
  by (simp add: removeRule_def trim_no_whitespace js_whitespace_def never_match_def)

lemma duplicate_names_engine:
  "new_RuleEngine (JArr [raw_rule ''test'' always ''A'' 1, raw_rule ''test'' never ''B'' 2])
     = Inr \<lparr>rules = [test_A, test_B]\<rparr>"
  by (simp add: new_RuleEngine_def validate_raw_rule js_whitespace_def sort_by_priority_def
      test_A_def test_B_def)

subsection \<open>What every reachable engine satisfies\<close>

lemma reachable_sorted: "reachable this \<Longrightarrow> sorted (map priority (rules this))"
proof (induction rule: reachable.induct)
  case (constructed rs this)
  then show ?case by (auto simp: new_RuleEngine_rules sort_by_priority_def)
next
  case (added this rule this')
  then show ?case
    by (auto simp: addRule_def sort_by_priority_def split: sum.splits if_splits)
next
  case (removed this ruleName this')
  then show ?case
    by (auto simp: removeRule_def Let_def sorted_filter split: jsval.splits if_splits)
qed

lemma reachable_valid:
  "reachable this \<Longrightarrow>
   \<forall>r\<in>set (rules this). trim (name r) \<noteq> [] \<and> trim (result r) \<noteq> [] \<and> 0 \<le> priority r"
proof (induction rule: reachable.induct)
  case (constructed rs this)
  then show ?case
    by (auto simp: new_RuleEngine_rules sort_by_priority_def dest!: validate_each_valid)
next
  case (added this rule this')
  then show ?case
    by (auto simp: addRule_def sort_by_priority_def split: sum.splits if_splits
             dest: validateRule_fields)
next
  case (removed this ruleName this')
  then show ?case
    by (auto simp: removeRule_def Let_def split: jsval.splits if_splits)
qed

subsection \<open>Where the stable sort puts a rule pushed onto a sorted list\<close>

lemma sort_key_snoc_sorted:
  "sorted (map f xs) \<Longrightarrow>
   sort_key f (xs @ [v]) = filter (\<lambda>r. f r \<le> f v) xs @ v # filter (\<lambda>r. f v < f r) xs"
proof (induction xs)
  case Nil
  then show ?case by simp
next
  case (Cons x xs)
  then have IH: "sort_key f (xs @ [v]) = filter (\<lambda>r. f r \<le> f v) xs @ v # filter (\<lambda>r. f v < f r) xs"
    and le: "\<forall>y\<in>set xs. f x \<le> f y"
    by auto
  show ?case
  proof (cases "f x \<le> f v")
    case True
    have "insort_key f x (filter (\<lambda>r. f r \<le> f v) xs @ v # filter (\<lambda>r. f v < f r) xs)
          = x # filter (\<lambda>r. f r \<le> f v) xs @ v # filter (\<lambda>r. f v < f r) xs"
      using True le by (intro insort_is_Cons) auto
    with True show ?thesis by (simp add: IH)
  next
    case False
    then have lt: "\<forall>y\<in>set xs. f v < f y" using le by auto
    then have "filter (\<lambda>r. f r \<le> f v) xs = []" "filter (\<lambda>r. f v < f r) xs = xs"
      by (auto simp: filter_empty_conv)
    moreover have "insort_key f x xs = x # xs"
      using le by (intro insort_is_Cons) auto
    ultimately show ?thesis
      using False by (simp add: IH)
  qed
qed

subsection \<open>The scan when a condition throws\<close>

lemma scan_condition_throws:
  assumes "\<forall>p\<in>set ps. \<not> throws p pd \<and> \<not> matches p pd" and "condition r pd = Throws t"
  shows "scan (ps @ r # qs) pd =
           (ps @ [r],
            case t of
              ThrownNullish \<Rightarrow> Inl TypeError
            | ThrownWithMessage m \<Rightarrow>
                Inl (Error (''Error evaluating rule '' @ dquote @ name r @ dquote @ '': '' @ m)))"
  using assms
  by (induction ps) (auto simp: throws_def matches_def split: outcome.splits)

text \<open>
  When the first condition to throw is that of \<open>r\<close>, the calls end with \<open>r\<close>; a thrown
  value with a message is wrapped in an error that names \<open>r\<close> and carries the message.
\<close>

lemma evaluate_condition_throws:
  assumes "structured pd" and "rules this = ps @ r # qs"
      and "\<forall>p\<in>set ps. \<not> throws p pd \<and> \<not> matches p pd" and "condition r pd = Throws t"
  shows "evaluate this pd =
           (ps @ [r],
            (case t of
               ThrownNullish \<Rightarrow> Inl TypeError
             | ThrownWithMessage m \<Rightarrow>
                 Inl (Error (''Error evaluating rule '' @ dquote @ name r @ dquote @ '': '' @ m))),
            this)"
  using assms(1) by (simp add: evaluate_def structured_def assms(2) scan_condition_throws [OF assms(3,4)])

subsection \<open>The scan when no condition throws\<close>

lemma scan_no_throw:
  "\<forall>r\<in>set rs. \<not> throws r pd \<Longrightarrow>
   scan rs pd =
     (takeWhile (\<lambda>r. \<not> matches r pd) rs @ take 1 (dropWhile (\<lambda>r. \<not> matches r pd) rs),
      case find (\<lambda>r. matches r pd) rs of
        Some r \<Rightarrow> Inr (result r)
      | None \<Rightarrow> Inl (Error ''No matching rule found for package data''))"
  by (induction rs) (auto simp: throws_def matches_def split: outcome.splits)

lemma evaluate_no_throw:
  assumes "structured pd" and "\<forall>r\<in>set (rules this). \<not> throws r pd"
  shows "evaluate this pd =
           (takeWhile (\<lambda>r. \<not> matches r pd) (rules this)
              @ take 1 (dropWhile (\<lambda>r. \<not> matches r pd) (rules this)),
            (case find (\<lambda>r. matches r pd) (rules this) of
               Some r \<Rightarrow> Inr (result r)
             | None \<Rightarrow> Inl (Error ''No matching rule found for package data'')),
            this)"
  using assms(1) by (simp add: evaluate_def structured_def scan_no_throw [OF assms(2)])

lemma find_first_call:
  "find P xs = Some a \<Longrightarrow> take (Suc 0) (dropWhile (\<lambda>r. \<not> P r) xs) = [a]"
  by (induction xs) (auto split: if_splits)

subsection \<open>The first match of a stably sorted list\<close>

lemma find_insort_new:
  "P x \<Longrightarrow> \<forall>y\<in>set ys. P y \<longrightarrow> f x \<le> f y \<Longrightarrow> find P (insort_key f x ys) = Some x"
  by (induction ys) auto

lemma find_insort_old:
  "sorted (map f ys) \<Longrightarrow> find P ys = Some a \<Longrightarrow> \<not> P x \<or> f a < f x
   \<Longrightarrow> find P (insort_key f x ys) = Some a"
proof (induction ys)
  case Nil
  then show ?case by simp
next
  case (Cons y ys)
  have a_in: "a \<in> set (y # ys)"
    using Cons.prems(2) by (metis find_Some_iff nth_mem)
  have ya: "f y \<le> f a"
    using Cons.prems(1) a_in by auto
  show ?case
  proof (cases "f x \<le> f y")
    case True
    with Cons.prems ya show ?thesis by auto
  next
    case False
    with Cons show ?thesis by (auto split: if_splits)
  qed
qed

text \<open>
  In the stable sort of \<open>as @ a # bs\<close>, the first element with \<open>P\<close> is \<open>a\<close> when the
  elements with \<open>P\<close> before it have a greater key and those after it no smaller one.
\<close>

lemma find_sort_key:
  "P a \<Longrightarrow> \<forall>r\<in>set as. P r \<longrightarrow> f a < f r \<Longrightarrow> \<forall>r\<in>set bs. P r \<longrightarrow> f a \<le> f r
   \<Longrightarrow> find P (sort_key f (as @ a # bs)) = Some a"
proof (induction as)
  case Nil
  then show ?case by (simp add: find_insort_new)
next
  case (Cons x as)
  then have "find P (sort_key f (as @ a # bs)) = Some a" by simp
  moreover have "\<not> P x \<or> f a < f x" using Cons.prems by auto
  ultimately show ?case
    by (simp add: find_insort_old)
qed

section \<open>The classifier\<close>

text \<open>
  C2. For all numbers, \<open>sort\<close> returns REJECTED when the package is bulky and heavy,
  SPECIAL when it is exactly one of the two, STANDARD when it is neither; and a package
  is heavy exactly when \<open>mass >= 20\<close>.
\<close>

theorem sort_decision_matrix:
  "(isBulky w h l \<and> isHeavy m \<longrightarrow> sort_matrix w h l m = REJECTED)
   \<and> (isBulky w h l \<noteq> isHeavy m \<longrightarrow> sort_matrix w h l m = SPECIAL)
   \<and> (\<not> isBulky w h l \<and> \<not> isHeavy m \<longrightarrow> sort_matrix w h l m = STANDARD)
   \<and> (isHeavy m \<longleftrightarrow> js_ge m (Fin 20))"
  by (auto simp: sort_matrix_def isHeavy_def MASS_THRESHOLD_def)

text \<open>The three literal scenarios of the decision matrix, one for each label.\<close>

theorem sort_decision_matrix_witness:
  "isBulky (Fin 150) (Fin 50) (Fin 50) \<and> isHeavy (Fin 20)
     \<and> sort_matrix (Fin 150) (Fin 50) (Fin 50) (Fin 20) = ''REJECTED''
   \<and> isBulky (Fin 100) (Fin 100) (Fin 100) \<noteq> isHeavy (Fin 10)
     \<and> sort_matrix (Fin 100) (Fin 100) (Fin 100) (Fin 10) = ''SPECIAL''
   \<and> \<not> isBulky (Fin 50) (Fin 50) (Fin 50) \<and> \<not> isHeavy (Fin 19.9)
     \<and> sort_matrix (Fin 50) (Fin 50) (Fin 50) (Fin 19.9) = ''STANDARD''"
  using sort_decision_matrix [of "Fin 150" "Fin 50" "Fin 50" "Fin 20"]
        sort_decision_matrix [of "Fin 100" "Fin 100" "Fin 100" "Fin 10"]
        sort_decision_matrix [of "Fin 50" "Fin 50" "Fin 50" "Fin 19.9"]
  by (simp add: isBulky_def isHeavy_def DIMENSION_THRESHOLD_def VOLUME_THRESHOLD_def
      MASS_THRESHOLD_def REJECTED_def SPECIAL_def STANDARD_def
      round64_10000 round64_1000000 round64_2500 round64_125000)

text \<open>
  C3, as the code has it. For width, height and length that are \<open>>= 0\<close>, \<open>isBulky\<close> is
  true exactly when one of them is \<open>>= 150\<close> or the binary64 product
  \<open>(width * height) * length\<close>, each multiplication rounded to the nearest value with ties
  to even, is \<open>>= 1000000\<close>: the early return on a dimension does not show in the result.
  Against the exact product of the three numbers: \<open>isBulky\<close> is true whenever a dimension
  is \<open>>= 150\<close> or the exact product is at least \<open>1000000 * (1 + 2^-51)\<close>, and when \<open>isBulky\<close>
  is true a dimension is \<open>>= 150\<close> or the exact product is at least
  \<open>1000000 * (1 - 2^-51)\<close>; in between, the rounded product decides.
\<close>

theorem isBulky_iff_binary64_thresholds:
  assumes "js_ge w (Fin 0)" "js_ge h (Fin 0)" "js_ge l (Fin 0)"
  shows "(isBulky w h l \<longleftrightarrow>
            js_ge w (Fin 150) \<or> js_ge h (Fin 150) \<or> js_ge l (Fin 150)
            \<or> js_ge (js_mul (js_mul w h) l) (Fin 1000000))
       \<and> (\<forall>a b c. w = Fin a \<and> h = Fin b \<and> l = Fin c \<longrightarrow>
             (150 \<le> a \<or> 150 \<le> b \<or> 150 \<le> c \<or> 1000000 * (1 + 1 / 2 ^ 51) \<le> a * b * c
                \<longrightarrow> isBulky w h l)
           \<and> (isBulky w h l
                \<longrightarrow> 150 \<le> a \<or> 150 \<le> b \<or> 150 \<le> c \<or> 1000000 * (1 - 1 / 2 ^ 51) \<le> a * b * c))"
proof -
  have flat: "isBulky w h l \<longleftrightarrow>
            js_ge w (Fin 150) \<or> js_ge h (Fin 150) \<or> js_ge l (Fin 150)
            \<or> js_ge (js_mul (js_mul w h) l) (Fin 1000000)"
    by (simp add: isBulky_def DIMENSION_THRESHOLD_def VOLUME_THRESHOLD_def)
  have band: "(150 \<le> a \<or> 150 \<le> b \<or> 150 \<le> c \<or> 1000000 * (1 + 1 / 2 ^ 51) \<le> a * b * c
                \<longrightarrow> isBulky w h l)
           \<and> (isBulky w h l
                \<longrightarrow> 150 \<le> a \<or> 150 \<le> b \<or> 150 \<le> c \<or> 1000000 * (1 - 1 / 2 ^ 51) \<le> a * b * c)"
    if eq: "w = Fin a" "h = Fin b" "l = Fin c" for a b c
  proof (cases "150 \<le> a \<or> 150 \<le> b \<or> 150 \<le> c")
    case True
    then have "isBulky (Fin a) (Fin b) (Fin c)"
      by (auto simp: isBulky_def DIMENSION_THRESHOLD_def)
    with True show ?thesis unfolding eq by blast
  next
    case False
    then have small: "a < 150" "b < 150" "c < 150" by auto
    have nonneg: "0 \<le> a" "0 \<le> b" "0 \<le> c" using assms by (simp_all add: eq)
    from volume_rounded [OF nonneg(1) small(1) nonneg(2) small(2) nonneg(3) small(3)]
    obtain v where v: "js_mul (js_mul (Fin a) (Fin b)) (Fin c) = Fin v"
      and lo: "a * b * c * (1 - 1 / 2 ^ 53) * (1 - 1 / 2 ^ 53) - 151 / 2 ^ 1075 \<le> v"
      and hi: "v \<le> a * b * c * (1 + 1 / 2 ^ 53) * (1 + 1 / 2 ^ 53) + 152 / 2 ^ 1075"
      by blast
    have bulky: "isBulky w h l \<longleftrightarrow> 1000000 \<le> v"
      unfolding eq using False v
      by (simp add: isBulky_def Let_def DIMENSION_THRESHOLD_def VOLUME_THRESHOLD_def
               del: js_mul.simps)
    have up: "1000000 \<le> v" if "1000000 * (1 + 1 / 2 ^ 51) \<le> a * b * c"
      using that lo by simp
    have down: "1000000 * (1 - 1 / 2 ^ 51) \<le> a * b * c" if "1000000 \<le> v"
      using that hi by simp
    show ?thesis
      using False bulky up down by blast
  qed
  show ?thesis
    using flat band by blast
qed

text \<open>
  A cube of side 100 is bulky: its rounded volume is 1000000. A cube of side 50 is not:
  its exact volume is far below the band.
\<close>

theorem isBulky_iff_binary64_thresholds_witness:
  "js_ge (Fin 100) (Fin 0) \<and> isBulky (Fin 100) (Fin 100) (Fin 100)
   \<and> js_ge (Fin 50) (Fin 0) \<and> \<not> isBulky (Fin 50) (Fin 50) (Fin 50)"
proof -
  have z: "js_ge (Fin 100) (Fin 0)" "js_ge (Fin 50) (Fin 0)" by simp_all
  from isBulky_iff_binary64_thresholds [OF z(1) z(1) z(1)]
  have big: "isBulky (Fin 100) (Fin 100) (Fin 100)"
    by (simp add: round64_10000 round64_1000000)
  from isBulky_iff_binary64_thresholds [OF z(2) z(2) z(2)]
  have "isBulky (Fin 50) (Fin 50) (Fin 50)
          \<longrightarrow> (150::real) \<le> 50 \<or> (150::real) \<le> 50 \<or> (150::real) \<le> 50
              \<or> 1000000 * (1 - 1 / 2 ^ 51) \<le> (50::real) * 50 * 50"
    by blast
  then have small: "\<not> isBulky (Fin 50) (Fin 50) (Fin 50)" by auto
  show ?thesis using z big small by simp
qed

text \<open>
  C3 as stated, with the exact product, fails on binary64 numbers. The package
  \<open>50.8647 x 135.8506 x 144.7178\<close> has every dimension below 150 and an exact volume below
  1000000, yet \<open>isBulky\<close> is true: the two roundings bring the product to 1000000. The
  package \<open>147.68 x 89.85 x 75.36335688890416\<close> has an exact volume above 1000000, yet
  \<open>isBulky\<close> is false.
\<close>

theorem isBulky_exact_product_counterexample:
  "representable width_below \<and> representable height_below \<and> representable length_below
   \<and> js_ge (Fin width_below) (Fin 0) \<and> js_ge (Fin height_below) (Fin 0)
   \<and> js_ge (Fin length_below) (Fin 0)
   \<and> width_below < 150 \<and> height_below < 150 \<and> length_below < 150
   \<and> width_below * height_below * length_below < 1000000
   \<and> isBulky (Fin width_below) (Fin height_below) (Fin length_below)
   \<and> representable width_above \<and> representable height_above \<and> representable length_above
   \<and> js_ge (Fin width_above) (Fin 0) \<and> js_ge (Fin height_above) (Fin 0)
   \<and> js_ge (Fin length_above) (Fin 0)
   \<and> 1000000 \<le> width_above * height_above * length_above
   \<and> \<not> isBulky (Fin width_above) (Fin height_above) (Fin length_above)"
proof -
  have below: "width_below < 150" "height_below < 150" "length_below < 150"
    "0 \<le> width_below" "0 \<le> height_below" "0 \<le> length_below"
    "width_below * height_below * length_below < 1000000"
    by (simp_all add: width_below_def height_below_def length_below_def)
  have above: "width_above < 150" "height_above < 150" "length_above < 150"
    "0 \<le> width_above" "0 \<le> height_above" "0 \<le> length_above"
    "1000000 \<le> width_above * height_above * length_above"
    by (simp_all add: width_above_def height_above_def length_above_def)
  have b1: "isBulky (Fin width_below) (Fin height_below) (Fin length_below)"
    using below(1-3)
    by (simp add: isBulky_def Let_def DIMENSION_THRESHOLD_def VOLUME_THRESHOLD_def volume_below
             del: js_mul.simps)
  have b2: "\<not> isBulky (Fin width_above) (Fin height_above) (Fin length_above)"
    using above(1-3)
    by (simp add: isBulky_def Let_def DIMENSION_THRESHOLD_def VOLUME_THRESHOLD_def volume_above
             del: js_mul.simps)
  show ?thesis
    using below above b1 b2 representable_below representable_above by simp
qed

section \<open>The default rules against the decision matrix\<close>

text \<open>
  C1. For all width, height, length and mass, and every record whose \<open>bulky\<close> and \<open>heavy\<close>
  properties hold \<open>isBulky(width, height, length)\<close> and \<open>isHeavy(mass)\<close>, the engine
  constructed from \<open>CLASSIFICATION_RULES\<close> evaluates the record to the label that
  \<open>sort(width, height, length, mass)\<close> returns.
\<close>

theorem default_engine_agrees_with_sort:
  assumes "map_of fs ''bulky'' = Some (JBool (isBulky w h l))"
      and "map_of fs ''heavy'' = Some (JBool (isHeavy m))"
  shows "\<exists>this. new_RuleEngine CLASSIFICATION_RULES = Inr this
           \<and> fst (snd (evaluate this (JObj fs))) = Inr (sort_matrix w h l m)"
  using assms
  by (simp add: default_engine evaluate_def default_rules_def rejected_condition_def
      special_condition_def standard_condition_def get_def sort_matrix_def)

text \<open>A cube of side 100 weighing 10: bulky by volume, light, so SPECIAL on both paths.\<close>

theorem default_engine_agrees_with_sort_witness:
  "map_of [(''bulky'', JBool (isBulky (Fin 100) (Fin 100) (Fin 100))), (''heavy'', JBool (isHeavy (Fin 10)))] ''bulky''
     = Some (JBool (isBulky (Fin 100) (Fin 100) (Fin 100)))
   \<and> map_of [(''bulky'', JBool (isBulky (Fin 100) (Fin 100) (Fin 100))), (''heavy'', JBool (isHeavy (Fin 10)))] ''heavy''
     = Some (JBool (isHeavy (Fin 10)))
   \<and> (\<exists>this. new_RuleEngine CLASSIFICATION_RULES = Inr this
        \<and> fst (snd (evaluate this (JObj [(''bulky'', JBool (isBulky (Fin 100) (Fin 100) (Fin 100))),
                                         (''heavy'', JBool (isHeavy (Fin 10)))])))
            = Inr ''SPECIAL'')"
proof -
  have s: "sort_matrix (Fin 100) (Fin 100) (Fin 100) (Fin 10) = ''SPECIAL''"
    by (simp add: sort_matrix_def isBulky_def isHeavy_def DIMENSION_THRESHOLD_def
        VOLUME_THRESHOLD_def MASS_THRESHOLD_def SPECIAL_def round64_10000 round64_1000000)
  show ?thesis
    using default_engine_agrees_with_sort
            [of "[(''bulky'', JBool (isBulky (Fin 100) (Fin 100) (Fin 100))), (''heavy'', JBool (isHeavy (Fin 10)))]"
                "Fin 100" "Fin 100" "Fin 100" "Fin 10"]
    by (simp add: s)
qed

text \<open>The rule-based \<open>sort\<close> is this evaluation on the record it builds.\<close>

lemma sort_rulebased_eq_sort_matrix:
  "sort_rulebased w h l m = Inr (sort_matrix w h l m)"
  by (simp add: sort_rulebased_def Let_def default_engine evaluate_def default_rules_def
      rejected_condition_def special_condition_def standard_condition_def get_def sort_matrix_def)

section \<open>Evaluation\<close>

text \<open>
  C4. For an engine constructed from an array of valid rules and a structured record on
  which no condition throws: the stored rules are in ascending order of priority, rules of
  equal priority in the order of the array; \<open>evaluate\<close> calls the conditions of the stored
  rules in that order up to and including the first rule that matches, calls none after
  it, and returns the result of that rule. So the rule that wins is the matching rule of
  least priority and, among matching rules of that priority, the one that comes first in
  the constructor's array.
\<close>

theorem evaluate_first_match:
  assumes "new_RuleEngine (JArr xs) = Inr this"
      and "validate_each xs = Inr vs"
      and "structured pd"
      and "\<forall>r\<in>set vs. \<not> throws r pd"
  shows "sorted (map priority (rules this))
         \<and> mset (rules this) = mset vs
         \<and> (\<forall>k. filter (\<lambda>r. priority r = k) (rules this) = filter (\<lambda>r. priority r = k) vs)
         \<and> evaluate this pd =
             (takeWhile (\<lambda>r. \<not> matches r pd) (rules this)
                @ take 1 (dropWhile (\<lambda>r. \<not> matches r pd) (rules this)),
              (case find (\<lambda>r. matches r pd) (rules this) of
                 Some r \<Rightarrow> Inr (result r)
               | None \<Rightarrow> Inl (Error ''No matching rule found for package data'')),
              this)
         \<and> (\<forall>as a bs. vs = as @ a # bs \<and> matches a pd
               \<and> (\<forall>r\<in>set as. matches r pd \<longrightarrow> priority a < priority r)
               \<and> (\<forall>r\<in>set bs. matches r pd \<longrightarrow> priority a \<le> priority r)
               \<longrightarrow> evaluate this pd =
                     (takeWhile (\<lambda>r. \<not> matches r pd) (rules this) @ [a], Inr (result a), this))"
proof -
  from assms(1,2) have rules_eq: "rules this = sort_key priority vs"
    by (auto simp: new_RuleEngine_rules sort_by_priority_def)
  have nothrow: "\<forall>r\<in>set (rules this). \<not> throws r pd"
    using assms(4) by (simp add: rules_eq)
  note ev = evaluate_no_throw [OF assms(3) nothrow]
  have win: "evaluate this pd =
               (takeWhile (\<lambda>r. \<not> matches r pd) (rules this) @ [a], Inr (result a), this)"
    if "vs = as @ a # bs" "matches a pd"
       "\<forall>r\<in>set as. matches r pd \<longrightarrow> priority a < priority r"
       "\<forall>r\<in>set bs. matches r pd \<longrightarrow> priority a \<le> priority r" for as a bs
  proof -
    have "find (\<lambda>r. matches r pd) (rules this) = Some a"
      unfolding rules_eq that(1) using that(2,3,4) by (rule find_sort_key)
    then show ?thesis
      by (simp add: ev find_first_call)
  qed
  have "sorted (map priority (rules this))"
    by (simp add: rules_eq)
  moreover have "mset (rules this) = mset vs"
    by (simp add: rules_eq)
  moreover have "\<forall>k. filter (\<lambda>r. priority r = k) (rules this) = filter (\<lambda>r. priority r = k) vs"
    by (simp add: rules_eq sort_key_stable)
  ultimately show ?thesis
    using ev win by blast
qed

text \<open>
  Two rules of priority 1 whose conditions both hold: the first of the array wins, and
  the condition of the second is not called.
\<close>

theorem evaluate_first_match_witness:
  "new_RuleEngine (JArr samePriorityRules) = Inr \<lparr>rules = [rule_1, rule_2]\<rparr>
   \<and> validate_each samePriorityRules = Inr [rule_1, rule_2]
   \<and> structured (JObj [])
   \<and> \<not> throws rule_1 (JObj []) \<and> \<not> throws rule_2 (JObj [])
   \<and> matches rule_1 (JObj []) \<and> matches rule_2 (JObj [])
   \<and> evaluate \<lparr>rules = [rule_1, rule_2]\<rparr> (JObj []) = ([rule_1], Inr ''FIRST'', \<lparr>rules = [rule_1, rule_2]\<rparr>)"
proof -
  have h3: "structured (JObj [])"
    by (simp add: structured_def)
  have h4: "\<forall>r\<in>set [rule_1, rule_2]. \<not> throws r (JObj [])"
    by (simp add: throws_def rule_1_def rule_2_def always_def)
  have m: "matches rule_1 (JObj [])" "matches rule_2 (JObj [])"
    by (simp_all add: matches_def rule_1_def rule_2_def always_def)
  from evaluate_first_match [OF samePriority_engine samePriority_validated h3 h4]
  have "\<forall>as a bs. [rule_1, rule_2] = as @ a # bs \<and> matches a (JObj [])
               \<and> (\<forall>r\<in>set as. matches r (JObj []) \<longrightarrow> priority a < priority r)
               \<and> (\<forall>r\<in>set bs. matches r (JObj []) \<longrightarrow> priority a \<le> priority r)
               \<longrightarrow> evaluate \<lparr>rules = [rule_1, rule_2]\<rparr> (JObj []) =
                     (takeWhile (\<lambda>r. \<not> matches r (JObj [])) (rules \<lparr>rules = [rule_1, rule_2]\<rparr>) @ [a],
                      Inr (result a), \<lparr>rules = [rule_1, rule_2]\<rparr>)"
    by blast
  from this [rule_format, of "[]" rule_1 "[rule_2]"]
  have "evaluate \<lparr>rules = [rule_1, rule_2]\<rparr> (JObj []) = ([rule_1], Inr ''FIRST'', \<lparr>rules = [rule_1, rule_2]\<rparr>)"
    using m by (simp add: rule_1_def rule_2_def)
  then show ?thesis
    using samePriority_engine samePriority_validated h3 h4 m by simp
qed

text \<open>
  C7. For every engine and every structured record on which no condition throws,
  \<open>evaluate\<close> fails with the error "No matching rule found for package data" exactly when
  no stored rule matches the record; in that case the condition of every stored rule has
  been called, in order.
\<close>

theorem evaluate_no_match_iff:
  assumes "structured pd" and "\<forall>r\<in>set (rules this). \<not> throws r pd"
  shows "(fst (snd (evaluate this pd)) = Inl (Error ''No matching rule found for package data'')
            \<longleftrightarrow> (\<forall>r\<in>set (rules this). \<not> matches r pd))
         \<and> ((\<forall>r\<in>set (rules this). \<not> matches r pd) \<longrightarrow> fst (evaluate this pd) = rules this)"
proof -
  note ev = evaluate_no_throw [OF assms]
  show ?thesis
  proof (cases "\<forall>r\<in>set (rules this). \<not> matches r pd")
    case True
    then have none: "find (\<lambda>r. matches r pd) (rules this) = None"
      by (simp add: find_None_iff)
    have all: "takeWhile (\<lambda>r. \<not> matches r pd) (rules this) = rules this"
      using True by (simp add: takeWhile_eq_all_conv)
    have nothing: "dropWhile (\<lambda>r. \<not> matches r pd) (rules this) = []"
      using True by simp
    show ?thesis
      using True by (simp add: ev none all nothing)
  next
    case False
    then have "find (\<lambda>r. matches r pd) (rules this) \<noteq> None"
      by (auto simp: find_None_iff)
    then obtain a where "find (\<lambda>r. matches r pd) (rules this) = Some a"
      by blast
    with False show ?thesis
      by (auto simp: ev)
  qed
qed

text \<open>An engine whose only rule never matches: the rule is tried, then the scan fails.\<close>

theorem evaluate_no_match_iff_witness:
  "structured (JObj []) \<and> \<not> throws never_match (JObj []) \<and> \<not> matches never_match (JObj [])
   \<and> evaluate \<lparr>rules = [never_match]\<rparr> (JObj [])
       = ([never_match], Inl (Error ''No matching rule found for package data''), \<lparr>rules = [never_match]\<rparr>)"
proof -
  have h1: "structured (JObj [])" by (simp add: structured_def)
  have h2: "\<forall>r\<in>set (rules \<lparr>rules = [never_match]\<rparr>). \<not> throws r (JObj [])"
    by (simp add: throws_def never_match_def never_def)
  have h3: "\<forall>r\<in>set (rules \<lparr>rules = [never_match]\<rparr>). \<not> matches r (JObj [])"
    by (simp add: matches_def never_match_def never_def)
  have "snd (snd (evaluate \<lparr>rules = [never_match]\<rparr> (JObj []))) = \<lparr>rules = [never_match]\<rparr>"
    by (simp add: evaluate_def split: prod.splits)
  with evaluate_no_match_iff [OF h1 h2] h3
  have "evaluate \<lparr>rules = [never_match]\<rparr> (JObj [])
       = ([never_match], Inl (Error ''No matching rule found for package data''), \<lparr>rules = [never_match]\<rparr>)"
    by (cases "evaluate \<lparr>rules = [never_match]\<rparr> (JObj [])") simp
  with h1 h2 h3 show ?thesis by simp
qed

text \<open>
  C9. For every engine and every input, a call of \<open>evaluate\<close>, whether it returns a label
  or fails, leaves the engine as it was: the same rules in the same order. (Conditions
  are functions of the record alone.)
\<close>

theorem evaluate_leaves_engine: "snd (snd (evaluate this pd)) = this"
  by (simp add: evaluate_def split: prod.splits)

text \<open>A call that fails on its input and a call that fails for want of a match.\<close>

theorem evaluate_leaves_engine_witness:
  "snd (snd (evaluate \<lparr>rules = [never_match]\<rparr> JNull)) = \<lparr>rules = [never_match]\<rparr>
   \<and> snd (snd (evaluate \<lparr>rules = [never_match]\<rparr> (JObj []))) = \<lparr>rules = [never_match]\<rparr>"
  using evaluate_leaves_engine [of "\<lparr>rules = [never_match]\<rparr>" JNull]
        evaluate_leaves_engine [of "\<lparr>rules = [never_match]\<rparr>" "JObj []"]
  by simp

section \<open>Mutation\<close>

text \<open>
  C10. A call of \<open>addRule\<close> that fails (invalid rule, or a name already stored) and a call
  of \<open>removeRule\<close> that fails (invalid name, or no rule of that name) leave the engine
  with the rules it had before, in the same order. For the removal that finds nothing,
  the array stored by the call is a copy equal to the old one.
\<close>

theorem failed_mutation_leaves_engine:
  "(addRule this rule = (Inl e, this') \<longrightarrow> this' = this)
   \<and> (removeRule this ruleName = (Inl e, this') \<longrightarrow> this' = this)"
  by (auto simp: addRule_def removeRule_def Let_def filter_same_length
           split: sum.splits if_splits jsval.splits)

text \<open>A duplicate name for \<open>addRule\<close>, an unknown name for \<open>removeRule\<close>.\<close>

theorem failed_mutation_leaves_engine_witness:
  "addRule \<lparr>rules = [rule_1, rule_2]\<rparr> (raw_rule ''rule-1'' always ''DUPLICATE'' 5)
     = (Inl (Error (''Rule with name '' @ dquote @ ''rule-1'' @ dquote @ '' already exists'')),
        \<lparr>rules = [rule_1, rule_2]\<rparr>)
   \<and> removeRule \<lparr>rules = [rule_1, rule_2]\<rparr> (JStr ''non-existent'' :: unit jsval)
     = (Inl (Error (''Rule with name '' @ dquote @ ''non-existent'' @ dquote @ '' not found'')),
        \<lparr>rules = [rule_1, rule_2]\<rparr>)"
proof -
  have a: "fst (addRule \<lparr>rules = [rule_1, rule_2]\<rparr> (raw_rule ''rule-1'' always ''DUPLICATE'' 5))
     = Inl (Error (''Rule with name '' @ dquote @ ''rule-1'' @ dquote @ '' already exists''))"
    by (simp add: addRule_def validate_raw_rule js_whitespace_def rule_1_def rule_2_def)
  have r: "fst (removeRule \<lparr>rules = [rule_1, rule_2]\<rparr> (JStr ''non-existent'' :: unit jsval))
     = Inl (Error (''Rule with name '' @ dquote @ ''non-existent'' @ dquote @ '' not found''))"
    by (simp add: removeRule_def trim_no_whitespace js_whitespace_def rule_1_def rule_2_def)
  show ?thesis
    using failed_mutation_leaves_engine
            [where this = "\<lparr>rules = [rule_1, rule_2]\<rparr>"
               and rule = "raw_rule ''rule-1'' always ''DUPLICATE'' 5"
               and e = "Error (''Rule with name '' @ dquote @ ''rule-1'' @ dquote @ '' already exists'')"
               and this' = "snd (addRule \<lparr>rules = [rule_1, rule_2]\<rparr> (raw_rule ''rule-1'' always ''DUPLICATE'' 5))"
               and ruleName = "JNull :: unit jsval"]
          failed_mutation_leaves_engine
            [where this = "\<lparr>rules = [rule_1, rule_2]\<rparr>"
               and rule = JNull
               and e = "Error (''Rule with name '' @ dquote @ ''non-existent'' @ dquote @ '' not found'')"
               and this' = "snd (removeRule \<lparr>rules = [rule_1, rule_2]\<rparr> (JStr ''non-existent'' :: unit jsval))"
               and ruleName = "JStr ''non-existent'' :: unit jsval"]
          a r
    by (metis prod.collapse)
qed

text \<open>
  C8, as the code has it. \<open>addRule\<close> validates first: a rule that fails validation is
  rejected with its validation error, whatever its name, and the engine is left as it
  was; so is a value that is not an object, a rule that lacks a required property, and a
  rule whose name is not a string with a character other than white space. For every
  reachable engine and every rule that passes validation: \<open>addRule\<close> fails with the
  error \<open>Rule with name "<name>" already exists\<close>, naming the rule, when a stored rule has
  the same name; otherwise it succeeds and the new rule is stored after the stored rules
  of lower or equal priority and before those of higher priority, where later calls of
  \<open>evaluate\<close> find it. In particular a valid rule of priority 0 added to an engine whose
  rules all have positive priority is stored first, and its condition is the first that
  \<open>evaluate\<close> calls on a structured record.
\<close>

theorem addRule_validates_then_inserts:
  assumes "reachable this"
  shows "(\<forall>e. validateRule rule = Inl e \<longrightarrow> addRule this rule = (Inl e, this))
    \<and> (\<not> truthy rule \<or> \<not> typeof_object rule \<longrightarrow>
          addRule this rule = (Inl (Error ''Rule must be an object''), this))
    \<and> (\<forall>p. truthy rule \<and> typeof_object rule
            \<and> find (\<lambda>prop. \<not> has_property prop rule) requiredProperties = Some p \<longrightarrow>
          addRule this rule = (Inl (Error (''Rule is missing required property: '' @ p)), this))
    \<and> (truthy rule \<and> typeof_object rule
          \<and> (\<forall>prop\<in>set requiredProperties. has_property prop rule)
          \<and> (\<forall>n. property rule ''name'' = JStr n \<longrightarrow> trim n = []) \<longrightarrow>
          addRule this rule = (Inl (Error ''Rule name must be a non-empty string''), this))
    \<and> (\<forall>v. validateRule rule = Inr v \<longrightarrow>
          property rule ''name'' = JStr (name v)
          \<and> (name v \<in> set (map name (rules this)) \<longrightarrow>
                addRule this rule =
                  (Inl (Error (''Rule with name '' @ dquote @ name v @ dquote @ '' already exists'')),
                   this))
          \<and> (name v \<notin> set (map name (rules this)) \<longrightarrow>
                addRule this rule =
                  (Inr (), \<lparr>rules = filter (\<lambda>r. priority r \<le> priority v) (rules this)
                                     @ v # filter (\<lambda>r. priority v < priority r) (rules this)\<rparr>))
          \<and> (name v \<notin> set (map name (rules this)) \<and> priority v = 0
                \<and> (\<forall>r\<in>set (rules this). 0 < priority r) \<longrightarrow>
                addRule this rule = (Inr (), \<lparr>rules = v # rules this\<rparr>)
                \<and> (\<forall>pd. structured pd \<longrightarrow>
                      take 1 (fst (evaluate \<lparr>rules = v # rules this\<rparr> pd)) = [v])))"
proof -
  have invalid: "addRule this rule = (Inl e, this)" if "validateRule rule = Inl e" for e
    using that by (simp add: addRule_def)
  have not_object: "validateRule rule = Inl (Error ''Rule must be an object'')"
    if "\<not> truthy rule \<or> \<not> typeof_object rule"
    using that by (auto simp: validateRule_def)
  have missing: "validateRule rule = Inl (Error (''Rule is missing required property: '' @ p))"
    if "truthy rule \<and> typeof_object rule
        \<and> find (\<lambda>prop. \<not> has_property prop rule) requiredProperties = Some p" for p
    using that by (simp add: validateRule_def)
  have bad_name: "validateRule rule = Inl (Error ''Rule name must be a non-empty string'')"
    if "truthy rule \<and> typeof_object rule
        \<and> (\<forall>prop\<in>set requiredProperties. has_property prop rule)
        \<and> (\<forall>n. property rule ''name'' = JStr n \<longrightarrow> trim n = [])"
  proof -
    have "find (\<lambda>prop. \<not> has_property prop rule) requiredProperties = None"
      using that by (simp add: find_None_iff)
    then show ?thesis
      using that by (simp add: validateRule_def split: jsval.splits)
  qed
  have valid: "property rule ''name'' = JStr (name v)
          \<and> (name v \<in> set (map name (rules this)) \<longrightarrow>
                addRule this rule =
                  (Inl (Error (''Rule with name '' @ dquote @ name v @ dquote @ '' already exists'')),
                   this))
          \<and> (name v \<notin> set (map name (rules this)) \<longrightarrow>
                addRule this rule =
                  (Inr (), \<lparr>rules = filter (\<lambda>r. priority r \<le> priority v) (rules this)
                                     @ v # filter (\<lambda>r. priority v < priority r) (rules this)\<rparr>))
          \<and> (name v \<notin> set (map name (rules this)) \<and> priority v = 0
                \<and> (\<forall>r\<in>set (rules this). 0 < priority r) \<longrightarrow>
                addRule this rule = (Inr (), \<lparr>rules = v # rules this\<rparr>)
                \<and> (\<forall>pd. structured pd \<longrightarrow>
                      take 1 (fst (evaluate \<lparr>rules = v # rules this\<rparr> pd)) = [v]))"
    if ok: "validateRule rule = Inr v" for v
  proof -
    have dup: "list_ex (\<lambda>existingRule. name existingRule = name v) (rules this)
               \<longleftrightarrow> name v \<in> set (map name (rules this))"
      by (rule list_ex_key)
    have pos: "sort_by_priority (rules this @ [v])
               = filter (\<lambda>r. priority r \<le> priority v) (rules this)
                 @ v # filter (\<lambda>r. priority v < priority r) (rules this)"
      unfolding sort_by_priority_def using reachable_sorted [OF assms] by (rule sort_key_snoc_sorted)
    have add: "addRule this rule =
              (Inr (), \<lparr>rules = filter (\<lambda>r. priority r \<le> priority v) (rules this)
                                 @ v # filter (\<lambda>r. priority v < priority r) (rules this)\<rparr>)"
      if "name v \<notin> set (map name (rules this))"
      using that ok by (simp add: addRule_def dup pos)
    have first: "filter (\<lambda>r. priority r \<le> priority v) (rules this) = []
                 \<and> filter (\<lambda>r. priority v < priority r) (rules this) = rules this"
      if "priority v = 0" "\<forall>r\<in>set (rules this). 0 < priority r"
      using that by (auto simp: filter_empty_conv)
    have call: "take 1 (fst (evaluate \<lparr>rules = v # rules this\<rparr> pd)) = [v]" if "structured pd" for pd
      using that by (simp add: evaluate_def structured_def split: outcome.splits prod.splits)
    show ?thesis
      using validateRule_fields(1) [OF ok] ok add first call
      by (auto simp: addRule_def dup)
  qed
  show ?thesis
    using invalid not_object missing bad_name valid by blast
qed

text \<open>
  On the engine of the default rules: the express rule of priority 0 goes first and is
  the first to be tried; a valid rule named like a stored one is refused by name; an
  object with a name only is refused for its missing condition.
\<close>

theorem addRule_validates_then_inserts_witness:
  "reachable \<lparr>rules = default_rules\<rparr>
   \<and> validateRule (raw_rule ''express-packages'' express_condition ''EXPRESS'' 0) = Inr express_rule
   \<and> addRule \<lparr>rules = default_rules\<rparr> (raw_rule ''express-packages'' express_condition ''EXPRESS'' 0)
       = (Inr (), \<lparr>rules = express_rule # default_rules\<rparr>)
   \<and> structured (JObj [])
   \<and> take 1 (fst (evaluate \<lparr>rules = express_rule # default_rules\<rparr> (JObj []))) = [express_rule]
   \<and> validateRule (raw_rule ''rejected-packages'' always ''DUPLICATE'' 5)
       = Inr \<lparr>name = ''rejected-packages'', condition = always, result = ''DUPLICATE'', priority = 5\<rparr>
   \<and> addRule \<lparr>rules = default_rules\<rparr> (raw_rule ''rejected-packages'' always ''DUPLICATE'' 5)
       = (Inl (Error (''Rule with name '' @ dquote @ ''rejected-packages'' @ dquote @ '' already exists'')),
          \<lparr>rules = default_rules\<rparr>)
   \<and> validateRule (JObj [(''name'', JStr ''incomplete'')])
       = Inl (Error ''Rule is missing required property: condition'')
   \<and> addRule \<lparr>rules = default_rules\<rparr> (JObj [(''name'', JStr ''incomplete'')])
       = (Inl (Error ''Rule is missing required property: condition''), \<lparr>rules = default_rules\<rparr>)
   \<and> addRule \<lparr>rules = default_rules\<rparr> JNull
       = (Inl (Error ''Rule must be an object''), \<lparr>rules = default_rules\<rparr>)"
proof -
  have fresh: "name express_rule \<notin> set (map name (rules \<lparr>rules = default_rules\<rparr>))"
    "priority express_rule = 0" "\<forall>r\<in>set (rules \<lparr>rules = default_rules\<rparr>). 0 < priority r"
    by (simp_all add: express_rule_def default_rules_def)
  have s: "structured (JObj [])"
    by (simp add: structured_def)
  have incomplete: "validateRule (JObj [(''name'', JStr ''incomplete'')])
       = Inl (Error ''Rule is missing required property: condition'')"
    by (simp add: validateRule_def requiredProperties_def)
  from addRule_validates_then_inserts
         [OF reachable_default, of "raw_rule ''express-packages'' express_condition ''EXPRESS'' 0"]
       express_valid fresh
  have "addRule \<lparr>rules = default_rules\<rparr> (raw_rule ''express-packages'' express_condition ''EXPRESS'' 0)
          = (Inr (), \<lparr>rules = express_rule # rules \<lparr>rules = default_rules\<rparr>\<rparr>)
        \<and> (\<forall>pd. structured pd \<longrightarrow>
              take 1 (fst (evaluate \<lparr>rules = express_rule # rules \<lparr>rules = default_rules\<rparr>\<rparr> pd))
                = [express_rule])"
    by blast
  with s
  have express: "addRule \<lparr>rules = default_rules\<rparr> (raw_rule ''express-packages'' express_condition ''EXPRESS'' 0)
          = (Inr (), \<lparr>rules = express_rule # default_rules\<rparr>)
        \<and> take 1 (fst (evaluate \<lparr>rules = express_rule # default_rules\<rparr> (JObj []))) = [express_rule]"
    by simp
  have in_rules: "name \<lparr>name = ''rejected-packages'', condition = always, result = ''DUPLICATE'',
                        priority = 5\<rparr> \<in> set (map name (rules \<lparr>rules = default_rules\<rparr>))"
    by (simp add: default_rules_def)
  from addRule_validates_then_inserts
         [OF reachable_default, of "raw_rule ''rejected-packages'' always ''DUPLICATE'' 5"]
       duplicate_valid in_rules
  have "addRule \<lparr>rules = default_rules\<rparr> (raw_rule ''rejected-packages'' always ''DUPLICATE'' 5)
       = (Inl (Error (''Rule with name '' @ dquote
                      @ name \<lparr>name = ''rejected-packages'', condition = always,
                               result = ''DUPLICATE'', priority = 5\<rparr>
                      @ dquote @ '' already exists'')),
          \<lparr>rules = default_rules\<rparr>)"
    by blast
  then have duplicate: "addRule \<lparr>rules = default_rules\<rparr> (raw_rule ''rejected-packages'' always ''DUPLICATE'' 5)
       = (Inl (Error (''Rule with name '' @ dquote @ ''rejected-packages'' @ dquote @ '' already exists'')),
          \<lparr>rules = default_rules\<rparr>)"
    by simp
  from addRule_validates_then_inserts
         [OF reachable_default, of "JObj [(''name'', JStr ''incomplete'')]"] incomplete
  have refused: "addRule \<lparr>rules = default_rules\<rparr> (JObj [(''name'', JStr ''incomplete'')])
       = (Inl (Error ''Rule is missing required property: condition''), \<lparr>rules = default_rules\<rparr>)"
    by blast
  have "\<not> truthy (JNull :: cond jsval) \<or> \<not> typeof_object (JNull :: cond jsval)" by simp
  with addRule_validates_then_inserts [OF reachable_default, of JNull]
  have null: "addRule \<lparr>rules = default_rules\<rparr> JNull
       = (Inl (Error ''Rule must be an object''), \<lparr>rules = default_rules\<rparr>)"
    by blast
  show ?thesis
    using reachable_default express_valid duplicate_valid s express duplicate incomplete refused null
    by simp
qed

text \<open>
  C8 as stated fails on a rule that does not pass validation: \<open>addRule\<close> validates first.
  With the name of a stored rule, the object \<open>{ name: "rejected-packages" }\<close> is refused
  for its missing condition, by an error that does not name it; with a name that is not
  stored, \<open>{ name: "incomplete" }\<close> is refused all the same.
\<close>

theorem addRule_invalid_rule_counterexample:
  "new_RuleEngine CLASSIFICATION_RULES = Inr \<lparr>rules = default_rules\<rparr>
   \<and> ''rejected-packages'' \<in> set (map name (rules \<lparr>rules = default_rules\<rparr>))
   \<and> addRule \<lparr>rules = default_rules\<rparr> (JObj [(''name'', JStr ''rejected-packages'')])
       = (Inl (Error ''Rule is missing required property: condition''), \<lparr>rules = default_rules\<rparr>)
   \<and> ''incomplete'' \<notin> set (map name (rules \<lparr>rules = default_rules\<rparr>))
   \<and> addRule \<lparr>rules = default_rules\<rparr> (JObj [(''name'', JStr ''incomplete'')])
       = (Inl (Error ''Rule is missing required property: condition''), \<lparr>rules = default_rules\<rparr>)"
  by (simp add: default_engine addRule_def validateRule_def requiredProperties_def default_rules_def)

section \<open>Reachable engines\<close>

text \<open>
  C5 asks that every reachable engine hold at least one rule and that its rule names be
  unique. The code reaches an engine with no rule, by removing the only rule of an engine,
  and an engine with two rules of one name, since the constructor does not compare names
  (the usage example "Duplicate rule names" expects it to throw). Reachable engines are
  sorted by priority and hold valid rules only (\<open>reachable_sorted\<close>, \<open>reachable_valid\<close>).
\<close>

theorem reachable_empty_and_duplicate_names:
  "new_RuleEngine (JArr [raw_rule ''never-match'' never ''NEVER'' 1]) = Inr \<lparr>rules = [never_match]\<rparr>
   \<and> removeRule \<lparr>rules = [never_match]\<rparr> (JStr ''never-match'' :: unit jsval) = (Inr (), \<lparr>rules = []\<rparr>)
   \<and> reachable \<lparr>rules = []\<rparr>
   \<and> new_RuleEngine (JArr [raw_rule ''test'' always ''A'' 1, raw_rule ''test'' never ''B'' 2])
       = Inr \<lparr>rules = [test_A, test_B]\<rparr>
   \<and> reachable \<lparr>rules = [test_A, test_B]\<rparr>
   \<and> map name (rules \<lparr>rules = [test_A, test_B]\<rparr>) = [''test'', ''test'']"
proof -
  have "reachable \<lparr>rules = [never_match]\<rparr>"
    using never_match_engine by (rule reachable.constructed)
  then have "reachable \<lparr>rules = []\<rparr>"
    using never_match_removed by (rule reachable.removed)
  moreover have "reachable \<lparr>rules = [test_A, test_B]\<rparr>"
    using duplicate_names_engine by (rule reachable.constructed)
  ultimately show ?thesis
    using never_match_engine never_match_removed duplicate_names_engine
    by (simp add: test_A_def test_B_def)
qed

section \<open>A condition that throws null\<close>

text \<open>
  C6 asks that a throwing condition make \<open>evaluate\<close> fail with an error that names the
  rule and carries the underlying message. When the condition throws \<open>null\<close>, reading
  \<open>error.message\<close> in the \<open>catch\<close> block raises a TypeError, which leaves \<open>evaluate\<close> in
  place of the wrapped error and does not name the rule. No later condition is called
  in either case (\<open>evaluate_condition_throws\<close>).
\<close>

theorem evaluate_thrown_null:
  "new_RuleEngine (JArr [raw_rule ''error-rule'' throw_null ''ERROR'' 1]) = Inr \<lparr>rules = [error_rule]\<rparr>
   \<and> structured (JObj [])
   \<and> condition error_rule (JObj []) = Throws ThrownNullish
   \<and> evaluate \<lparr>rules = [error_rule]\<rparr> (JObj []) = ([error_rule], Inl TypeError, \<lparr>rules = [error_rule]\<rparr>)"
  by (simp add: new_RuleEngine_def validate_raw_rule js_whitespace_def sort_by_priority_def
      error_rule_def structured_def throw_null_def evaluate_def)

text \<open>What the caller of that \<open>evaluate\<close> sees: the one call made, and the TypeError.\<close>

theorem evaluate_thrown_null_witness:
  "fst (evaluate \<lparr>rules = [error_rule]\<rparr> (JObj [])) = [error_rule]
   \<and> fst (snd (evaluate \<lparr>rules = [error_rule]\<rparr> (JObj []))) = Inl TypeError"
  by (simp add: evaluate_thrown_null [THEN conjunct2, THEN conjunct2, THEN conjunct2])

end
